theory Spec2Isabelle
  imports Main "HOL-Library.Word" "HOL-Library.Monad_Syntax"
begin

unbundle bit_operations_syntax

section \<open>The storage core of firmware/storage.c\<close>

text \<open>
  A shallow embedding of \<^verbatim>\<open>src/firmware/storage.c\<close>, the build with \<^verbatim>\<open>CRYPTOMEM\<close> equal to 0
  (secrets kept on the MCU). The file-scope globals become the fields of one record
  \<open>state\<close>, every function takes the state and returns the new one, and a function that
  can end in \<^verbatim>\<open>storage_show_error()\<close> (which shuts the device down) or run off the flash
  returns an \<open>option\<close>, \<open>None\<close> standing for "does not return".
\<close>

type_synonym u8 = "8 word"
type_synonym u32 = "32 word"

subsection \<open>C strings in fixed buffers\<close>

text \<open>The bytes of a buffer up to its first NUL: what C reads as the string.\<close>

definition cstr :: "u8 list \<Rightarrow> u8 list" where
  "cstr buf = takeWhile (\<lambda>c. c \<noteq> 0) buf"

text \<open>
  \<^verbatim>\<open>strlcpy(dst, src, n)\<close>: at most \<open>n - 1\<close> bytes of the string \<open>src\<close> are copied and a NUL
  is put after them; the bytes of \<open>dst\<close> behind that NUL keep their values.
\<close>

definition strlcpy :: "u8 list \<Rightarrow> u8 list \<Rightarrow> nat \<Rightarrow> u8 list" where
  "strlcpy dst src n =
     (if n = 0 then dst
      else let k = min (length (cstr src)) (n - 1)
           in take k (cstr src) @ [0] @ drop (Suc k) dst)"

subsection \<open>The Storage record (messages.pb.h)\<close>

text \<open>
  Modelled from the spec: the declaration of \<^verbatim>\<open>Storage\<close> and \<^verbatim>\<open>StorageHDNode\<close> is in
  messages.pb.h, which is not among the sources. The fields are the ones storage.c
  reads and writes; the capacities are the spec's boundary constants.
\<close>

record pb_bytes =
  bsize :: u32
  bytes :: "u8 list"

record StorageHDNode =
  depth :: u32
  fingerprint :: u32
  child_num :: u32
  chain_code :: pb_bytes
  has_private_key :: bool
  private_key :: pb_bytes

record Storage =
  version :: u32
  has_node :: bool
  node :: StorageHDNode
  has_mnemonic :: bool
  mnemonic :: "u8 list"
  has_passphrase_protection :: bool
  passphrase_protection :: bool
  has_pin_failed_attempts :: bool
  pin_failed_attempts :: u32
  has_pin :: bool
  pin :: "u8 list"
  has_language :: bool
  language :: "u8 list"
  has_label :: bool
  label :: "u8 list"
  has_imported :: bool
  imported :: bool
  has_homescreen :: bool
  homescreen :: pb_bytes
  has_u2f_counter :: bool
  u2f_counter :: u32
  has_needs_backup :: bool
  needs_backup :: bool
  has_flags :: bool
  flags :: u32
  has_u2froot :: bool
  u2froot :: StorageHDNode

definition sizeof_mnemonic :: nat where "sizeof_mnemonic = 241"
definition sizeof_pin :: nat where "sizeof_pin = 10"
definition sizeof_language :: nat where "sizeof_language = 17"
definition sizeof_label :: nat where "sizeof_label = 33"
definition sizeof_homescreen :: nat where "sizeof_homescreen = 1024"

text \<open>The image of a record after \<^verbatim>\<open>memzero\<close>.\<close>

definition zero_bytes :: "nat \<Rightarrow> pb_bytes" where
  "zero_bytes n = \<lparr>bsize = 0, bytes = replicate n 0\<rparr>"

definition zero_HDNode :: StorageHDNode where
  "zero_HDNode = \<lparr>depth = 0, fingerprint = 0, child_num = 0, chain_code = zero_bytes 32,
     has_private_key = False, private_key = zero_bytes 32\<rparr>"

definition zero_Storage :: Storage where
  "zero_Storage = \<lparr>version = 0,
     has_node = False, node = zero_HDNode,
     has_mnemonic = False, mnemonic = replicate sizeof_mnemonic 0,
     has_passphrase_protection = False, passphrase_protection = False,
     has_pin_failed_attempts = False, pin_failed_attempts = 0,
     has_pin = False, pin = replicate sizeof_pin 0,
     has_language = False, language = replicate sizeof_language 0,
     has_label = False, label = replicate sizeof_label 0,
     has_imported = False, imported = False,
     has_homescreen = False, homescreen = zero_bytes sizeof_homescreen,
     has_u2f_counter = False, u2f_counter = 0,
     has_needs_backup = False, needs_backup = False,
     has_flags = False, flags = 0,
     has_u2froot = False, u2froot = zero_HDNode\<rparr>"

subsection \<open>The external library\<close>

text \<open>
  The cryptographic library is outside the sources; its functions are parameters of the
  model. \<open>HDNode\<close> keeps the three fields of bip32.h's node that storage.c reads.
\<close>

record HDNode =
  hd_depth :: u32
  hd_chain_code :: "u8 list"
  hd_private_key :: "u8 list"

record crypto =
  mnemonic_to_seed :: "u8 list \<Rightarrow> u8 list \<Rightarrow> u8 list"
  mnemonic_check :: "u8 list \<Rightarrow> bool"
  hdnode_from_seed_nist256p1 :: "u8 list \<Rightarrow> HDNode"
  hdnode_private_ckd :: "HDNode \<Rightarrow> u32 \<Rightarrow> HDNode"
  U2F_KEY_PATH :: u32
  hmac_sha256 :: "u8 list \<Rightarrow> u8 list \<Rightarrow> u8 list"

subsection \<open>The state: flash and RAM\<close>

text \<open>
  Flash addresses are byte offsets from \<^verbatim>\<open>FLASH_META_START\<close>, as in the layout table of
  storage.c. The first meta sector holds the magic word, the uuid and the image of the
  record (\<open>flash_magic\<close>, \<open>flash_uuid\<close>, \<open>storageRom\<close>); its meta descriptor is saved and
  written back by every commit and is left out. The last meta sector (PIN failures,
  U2F counter, reserved) is the word-addressed memory \<open>flash\<close>. \<open>erases\<close> counts the erase
  cycles of the last sector and \<open>FLASH_SR\<close> is the status \<^verbatim>\<open>svc_flash_lock()\<close> returns.
  \<^verbatim>\<open>storage_uuid_str\<close>, the hex rendering of \<^verbatim>\<open>storage_uuid\<close>, is left out.
\<close>

record state =
  flash_magic :: u32
  flash_uuid :: "u8 list"
  storageRom :: Storage
  flash :: "nat \<Rightarrow> u32"
  erases :: nat
  FLASH_SR :: u32
  storage_uuid :: "u8 list"
  storageUpdate :: Storage
  storage_u2f_offset :: u32
  sessionSeedCached :: bool
  sessionSeedUsesPassphrase :: bool
  sessionSeed :: "u8 list"
  sessionPinCached :: bool
  sessionPassphraseCached :: bool
  sessionPassphrase :: "u8 list"

definition storage_magic :: u32 where "storage_magic = 0x726f7473"
definition STORAGE_VERSION :: u32 where "STORAGE_VERSION = 0x10001"

definition FLASH_STORAGE_PINAREA :: nat where "FLASH_STORAGE_PINAREA = 0x4000"
definition FLASH_STORAGE_PINAREA_LEN :: nat where "FLASH_STORAGE_PINAREA_LEN = 0x1000"
definition FLASH_STORAGE_U2FAREA :: nat where
  "FLASH_STORAGE_U2FAREA = FLASH_STORAGE_PINAREA + FLASH_STORAGE_PINAREA_LEN"
definition FLASH_STORAGE_U2FAREA_LEN :: nat where "FLASH_STORAGE_U2FAREA_LEN = 0x100"

text \<open>
  Modelled from the spec: the flash driver (memory.h, supervise.h, libopencm3) is not
  among the sources. Programming a word can only clear bits ("we can only clear bits
  without erasing the flash"), erasing a sector sets all its bits; the last meta
  sector is 16 kB (4 kB PIN area, 256 bytes U2F area, 11.75 kB reserved), and the error
  bits of the status register are WRPERR, PGAERR, PGPERR and PGSERR (bits 4 to 7).
\<close>

definition FLASH_META_END :: nat where "FLASH_META_END = 0x8000"

definition flash_write32 :: "nat \<Rightarrow> u32 \<Rightarrow> state \<Rightarrow> state" where
  "flash_write32 addr v s = s\<lparr>flash := (flash s)(addr := flash s addr AND v)\<rparr>"

definition svc_flash_erase_sector_last :: "state \<Rightarrow> state" where
  "svc_flash_erase_sector_last s =
     s\<lparr>flash := (\<lambda>a. if FLASH_STORAGE_PINAREA \<le> a \<and> a < FLASH_META_END
                       then 0xffffffff else flash s a),
       erases := Suc (erases s)\<rparr>"

definition FLASH_SR_ERRORS :: u32 where "FLASH_SR_ERRORS = 0xF0"

text \<open>\<^verbatim>\<open>storage_check_flash_errors(svc_flash_lock())\<close>: \<open>None\<close> is the shutdown.\<close>

definition storage_check_flash_errors :: "state \<Rightarrow> state option" where
  "storage_check_flash_errors s =
     (if FLASH_SR s AND FLASH_SR_ERRORS \<noteq> 0 then None else Some s)"

subsection \<open>Update record and session\<close>

definition storage_clear_update :: "state \<Rightarrow> state" where
  "storage_clear_update s = s\<lparr>storageUpdate := zero_Storage\<rparr>"

definition session_clear :: "bool \<Rightarrow> state \<Rightarrow> state" where
  "session_clear clear_pin s =
     s\<lparr>sessionSeedCached := False,
       sessionSeed := replicate 64 0,
       sessionPassphraseCached := False,
       sessionPassphrase := replicate 51 0,
       sessionPinCached := (if clear_pin then False else sessionPinCached s)\<rparr>"

text \<open>
  \<^verbatim>\<open>storage_compute_u2froot(mnemonic, u2froot)\<close>: the seed is derived into \<^verbatim>\<open>sessionSeed\<close>,
  the node's fields are copied (the fingerprint is not written), and the seed cache is
  cleared. The result is the new \<open>u2froot\<close> and the new state.
\<close>

definition storage_compute_u2froot ::
  "crypto \<Rightarrow> u8 list \<Rightarrow> StorageHDNode \<Rightarrow> state \<Rightarrow> StorageHDNode \<times> state" where
  "storage_compute_u2froot ext mn root s =
     (let seed = mnemonic_to_seed ext (cstr mn) [];
          s1 = s\<lparr>sessionSeed := seed\<rparr>;
          nd = hdnode_private_ckd ext (hdnode_from_seed_nist256p1 ext seed) (U2F_KEY_PATH ext);
          root' = root\<lparr>depth := hd_depth nd,
                       child_num := U2F_KEY_PATH ext,
                       chain_code := \<lparr>bsize = 32, bytes = hd_chain_code nd\<rparr>,
                       has_private_key := True,
                       private_key := \<lparr>bsize = 32, bytes = hd_private_key nd\<rparr>\<rparr>
      in (root', session_clear False s1))"

subsection \<open>The commit\<close>

text \<open>
  \<^verbatim>\<open>storage_commit_locked(update)\<close>, first half: the fields the update does not set are
  taken from the record in flash. Each definition below is one \<^verbatim>\<open>if\<close> block of the
  source, in the source's order; \<open>R\<close> is \<^verbatim>\<open>storageRom\<close> and \<open>U\<close> is \<^verbatim>\<open>storageUpdate\<close>.
\<close>

definition commit_session_flags :: "state \<Rightarrow> state" where
  "commit_session_flags s =
     (let s1 = (if has_passphrase_protection (storageUpdate s)
                then s\<lparr>sessionSeedCached := False, sessionPassphraseCached := False\<rparr>
                else s)
      in if has_pin (storageUpdate s1) then s1\<lparr>sessionPinCached := False\<rparr> else s1)"

definition merge_secret :: "crypto \<Rightarrow> state \<Rightarrow> state" where
  "merge_secret ext s =
     (let U = storageUpdate s; R = storageRom s
      in if \<not> has_node U \<and> \<not> has_mnemonic U then
           s\<lparr>storageUpdate := U\<lparr>has_node := has_node R, node := node R,
                 has_mnemonic := has_mnemonic R,
                 mnemonic := strlcpy (mnemonic U) (mnemonic R) sizeof_mnemonic,
                 has_u2froot := has_u2froot R, u2froot := u2froot R\<rparr>\<rparr>
         else if has_mnemonic U then
           (case storage_compute_u2froot ext (mnemonic U) (u2froot U) s of
              (root, s') \<Rightarrow> s'\<lparr>storageUpdate := U\<lparr>has_u2froot := True, u2froot := root\<rparr>\<rparr>)
         else s)"

definition merge_passphrase_protection :: "Storage \<Rightarrow> Storage \<Rightarrow> Storage" where
  "merge_passphrase_protection R U =
     (if \<not> has_passphrase_protection U
      then U\<lparr>has_passphrase_protection := has_passphrase_protection R,
             passphrase_protection := passphrase_protection R\<rparr>
      else U)"

text \<open>\<^verbatim>\<open>!pin[0]\<close> and \<^verbatim>\<open>!label[0]\<close> say that the string in the buffer is empty.\<close>

definition merge_pin :: "Storage \<Rightarrow> Storage \<Rightarrow> Storage" where
  "merge_pin R U =
     (if \<not> has_pin U
      then U\<lparr>has_pin := has_pin R, pin := strlcpy (pin U) (pin R) sizeof_pin\<rparr>
      else if cstr (pin U) = [] then U\<lparr>has_pin := False\<rparr>
      else U)"

definition merge_language :: "Storage \<Rightarrow> Storage \<Rightarrow> Storage" where
  "merge_language R U =
     (if \<not> has_language U
      then U\<lparr>has_language := has_language R,
             language := strlcpy (language U) (language R) sizeof_language\<rparr>
      else U)"

definition merge_label :: "Storage \<Rightarrow> Storage \<Rightarrow> Storage" where
  "merge_label R U =
     (if \<not> has_label U
      then U\<lparr>has_label := has_label R, label := strlcpy (label U) (label R) sizeof_label\<rparr>
      else if cstr (label U) = [] then U\<lparr>has_label := False\<rparr>
      else U)"

definition merge_imported :: "Storage \<Rightarrow> Storage \<Rightarrow> Storage" where
  "merge_imported R U =
     (if \<not> has_imported U
      then U\<lparr>has_imported := has_imported R, imported := imported R\<rparr>
      else U)"

definition merge_homescreen :: "Storage \<Rightarrow> Storage \<Rightarrow> Storage" where
  "merge_homescreen R U =
     (if \<not> has_homescreen U
      then U\<lparr>has_homescreen := has_homescreen R, homescreen := homescreen R\<rparr>
      else if bsize (homescreen U) = 0 then U\<lparr>has_homescreen := False\<rparr>
      else U)"

definition merge_u2f_counter :: "Storage \<Rightarrow> Storage \<Rightarrow> Storage" where
  "merge_u2f_counter R U =
     (if \<not> has_u2f_counter U
      then U\<lparr>has_u2f_counter := has_u2f_counter R, u2f_counter := u2f_counter R\<rparr>
      else U)"

definition merge_needs_backup :: "Storage \<Rightarrow> Storage \<Rightarrow> Storage" where
  "merge_needs_backup R U =
     (if \<not> has_needs_backup U
      then U\<lparr>has_needs_backup := has_needs_backup R, needs_backup := needs_backup R\<rparr>
      else U)"

definition merge_flags :: "Storage \<Rightarrow> Storage \<Rightarrow> Storage" where
  "merge_flags R U =
     (if \<not> has_flags U
      then U\<lparr>has_flags := has_flags R, flags := flags R\<rparr>
      else U)"

definition merge_policy :: "Storage \<Rightarrow> Storage \<Rightarrow> Storage" where
  "merge_policy R U =
     merge_flags R (merge_needs_backup R (merge_u2f_counter R (merge_homescreen R
       (merge_imported R (merge_label R (merge_language R (merge_pin R
         (merge_passphrase_protection R U))))))))"

definition commit_merge :: "crypto \<Rightarrow> state \<Rightarrow> state" where
  "commit_merge ext s =
     (let s1 = commit_session_flags s;
          s2 = s1\<lparr>storageUpdate := (storageUpdate s1)\<lparr>version := STORAGE_VERSION\<rparr>\<rparr>;
          s3 = merge_secret ext s2
      in s3\<lparr>storageUpdate := merge_policy (storageRom s3) (storageUpdate s3)\<rparr>)"

text \<open>
  Second half: the first meta sector is erased and programmed again with the magic
  word, the uuid in RAM and (for an update) the image of \<^verbatim>\<open>storageUpdate\<close>; the words
  behind are programmed with zero, so without an update the record in flash is the
  all-zero image. Every word is programmed once after the erase, so it reads back as
  written. \<^verbatim>\<open>storage_clear_update()\<close> runs before the zero fill.
\<close>

definition storage_commit_locked :: "crypto \<Rightarrow> bool \<Rightarrow> state \<Rightarrow> state" where
  "storage_commit_locked ext update s =
     (let s1 = (if update then commit_merge ext s else s);
          s2 = s1\<lparr>flash_magic := storage_magic,
                  flash_uuid := storage_uuid s1,
                  storageRom := (if update then storageUpdate s1 else zero_Storage)\<rparr>
      in storage_clear_update s2)"

definition storage_update :: "crypto \<Rightarrow> state \<Rightarrow> state option" where
  "storage_update ext s = storage_check_flash_errors (storage_commit_locked ext True s)"

subsection \<open>Setters and getters\<close>

text \<open>\<^verbatim>\<open>storage_setLabel(label)\<close>: \<open>None\<close> is the null pointer.\<close>

definition storage_setLabel :: "u8 list option \<Rightarrow> state \<Rightarrow> state" where
  "storage_setLabel lbl s =
     (let s1 = s\<lparr>storageUpdate := (storageUpdate s)\<lparr>has_label := True\<rparr>\<rparr>
      in case lbl of
           None \<Rightarrow> s1
         | Some l \<Rightarrow>
             s1\<lparr>storageUpdate := (storageUpdate s1)\<lparr>
                   label := strlcpy (label (storageUpdate s1)) l sizeof_label\<rparr>\<rparr>)"

text \<open>
  \<^verbatim>\<open>storage_setLanguage(lang)\<close>: "english" is stored as "EN"; "EN", "FR" and "DE" are
  stored as they are; anything else is ignored.
\<close>

definition storage_setLanguage :: "u8 list option \<Rightarrow> state \<Rightarrow> state" where
  "storage_setLanguage lang s =
     (case lang of
        None \<Rightarrow> s
      | Some l \<Rightarrow>
          if cstr l = [0x65, 0x6E, 0x67, 0x6C, 0x69, 0x73, 0x68] then
            s\<lparr>storageUpdate := (storageUpdate s)\<lparr>
                has_language := True,
                language := strlcpy (language (storageUpdate s)) [0x45, 0x4E] sizeof_language\<rparr>\<rparr>
          else if cstr l = [0x45, 0x4E] \<or> cstr l = [0x46, 0x52] \<or> cstr l = [0x44, 0x45] then
            s\<lparr>storageUpdate := (storageUpdate s)\<lparr>
                has_language := True,
                language := strlcpy (language (storageUpdate s)) l sizeof_language\<rparr>\<rparr>
          else s)"

definition storage_setPassphraseProtection :: "bool \<Rightarrow> state \<Rightarrow> state" where
  "storage_setPassphraseProtection pp s =
     s\<lparr>sessionSeedCached := False,
       sessionPassphraseCached := False,
       storageUpdate := (storageUpdate s)\<lparr>has_passphrase_protection := True,
                                          passphrase_protection := pp\<rparr>\<rparr>"

definition storage_hasPassphraseProtection :: "state \<Rightarrow> bool" where
  "storage_hasPassphraseProtection s =
     (has_passphrase_protection (storageRom s) \<and> passphrase_protection (storageRom s))"

definition storage_setMnemonic :: "u8 list \<Rightarrow> state \<Rightarrow> bool \<times> state" where
  "storage_setMnemonic mn s =
     (True, s\<lparr>storageUpdate := (storageUpdate s)\<lparr>has_mnemonic := True,
                 mnemonic := strlcpy (mnemonic (storageUpdate s)) mn sizeof_mnemonic\<rparr>\<rparr>)"

definition storage_hasNode :: "state \<Rightarrow> bool" where
  "storage_hasNode s = has_node (storageRom s)"

definition storage_hasMnemonic :: "state \<Rightarrow> bool" where
  "storage_hasMnemonic s = has_mnemonic (storageRom s)"

definition storage_getLabel :: "state \<Rightarrow> u8 list option" where
  "storage_getLabel s = (if has_label (storageRom s) then Some (label (storageRom s)) else None)"

definition storage_getLanguage :: "state \<Rightarrow> u8 list option" where
  "storage_getLanguage s =
     (if has_language (storageRom s) then Some (language (storageRom s)) else None)"

definition storage_getHomescreen :: "state \<Rightarrow> u8 list option" where
  "storage_getHomescreen s =
     (if has_homescreen (storageRom s) \<and> bsize (homescreen (storageRom s)) = 1024
      then Some (bytes (homescreen (storageRom s))) else None)"

definition storage_hasPin :: "state \<Rightarrow> bool" where
  "storage_hasPin s = (has_pin (storageRom s) \<and> cstr (pin (storageRom s)) \<noteq> [])"

definition storage_setPin :: "u8 list \<Rightarrow> state \<Rightarrow> state" where
  "storage_setPin p s =
     s\<lparr>storageUpdate := (storageUpdate s)\<lparr>has_pin := True,
                 pin := strlcpy (pin (storageUpdate s)) p sizeof_pin\<rparr>,
       sessionPinCached := False\<rparr>"

definition session_cachePassphrase :: "u8 list \<Rightarrow> state \<Rightarrow> state" where
  "session_cachePassphrase passphrase s =
     s\<lparr>sessionPassphrase := strlcpy (sessionPassphrase s) passphrase 51,
       sessionPassphraseCached := True\<rparr>"

definition session_isPassphraseCached :: "state \<Rightarrow> bool" where
  "session_isPassphraseCached s = sessionPassphraseCached s"

definition storage_isInitialized :: "state \<Rightarrow> bool" where
  "storage_isInitialized s = (has_node (storageRom s) \<or> has_mnemonic (storageRom s))"

definition storage_isImported :: "state \<Rightarrow> bool" where
  "storage_isImported s = (has_imported (storageRom s) \<and> imported (storageRom s))"

definition storage_setImported :: "bool \<Rightarrow> state \<Rightarrow> state" where
  "storage_setImported b s =
     s\<lparr>storageUpdate := (storageUpdate s)\<lparr>has_imported := True, imported := b\<rparr>\<rparr>"

definition storage_needsBackup :: "state \<Rightarrow> bool" where
  "storage_needsBackup s =
     (if has_needs_backup (storageUpdate s) then needs_backup (storageUpdate s)
      else has_needs_backup (storageRom s) \<and> needs_backup (storageRom s))"

definition storage_setNeedsBackup :: "bool \<Rightarrow> state \<Rightarrow> state" where
  "storage_setNeedsBackup b s =
     s\<lparr>storageUpdate := (storageUpdate s)\<lparr>has_needs_backup := True, needs_backup := b\<rparr>\<rparr>"

definition storage_applyFlags :: "u32 \<Rightarrow> state \<Rightarrow> state" where
  "storage_applyFlags f s =
     (if flags (storageRom s) OR f = flags (storageRom s) then s
      else s\<lparr>storageUpdate := (storageUpdate s)\<lparr>has_flags := True,
                   flags := flags (storageUpdate s) OR f\<rparr>\<rparr>)"

definition storage_getFlags :: "state \<Rightarrow> u32" where
  "storage_getFlags s = (if has_flags (storageRom s) then flags (storageRom s) else 0)"

definition storage_setU2FCounter :: "u32 \<Rightarrow> state \<Rightarrow> state" where
  "storage_setU2FCounter c s =
     s\<lparr>storageUpdate := (storageUpdate s)\<lparr>has_u2f_counter := True,
                 u2f_counter := c - storage_u2f_offset s\<rparr>\<rparr>"

subsection \<open>Seed, secret comparison and session state\<close>

text \<open>
  \<^verbatim>\<open>storage_getSeed(usePassphrase)\<close>. \<^verbatim>\<open>protectPassphrase()\<close> (protect.c) talks to the user
  and is the parameter \<open>pp\<close>: it returns whether a passphrase is available and the state
  it leaves. The result is \<open>None\<close> when the mnemonic fails the BIP-0039 check and the
  device halts; otherwise the returned pointer (\<open>None\<close> for \<^verbatim>\<open>NULL\<close>) and the new state.
\<close>

definition storage_getSeed ::
  "crypto \<Rightarrow> (state \<Rightarrow> bool \<times> state) \<Rightarrow> bool \<Rightarrow> state \<Rightarrow> (u8 list option \<times> state) option" where
  "storage_getSeed ext pp usePassphrase s =
     (if usePassphrase = sessionSeedUsesPassphrase s \<and> sessionSeedCached s
      then Some (Some (sessionSeed s), s)
      else if has_mnemonic (storageRom s) then
        (case (if usePassphrase then pp s else (True, s)) of
           (ok, s1) \<Rightarrow>
             if usePassphrase \<and> \<not> ok then Some (None, s1)
             else if (\<not> has_imported (storageRom s1) \<or> \<not> imported (storageRom s1)) \<and>
                     \<not> mnemonic_check ext (cstr (mnemonic (storageRom s1)))
             then None
             else
               (let seed = mnemonic_to_seed ext (cstr (mnemonic (storageRom s1)))
                             (if usePassphrase then cstr (sessionPassphrase s1) else [])
                in Some (Some seed,
                         s1\<lparr>sessionSeed := seed, sessionSeedCached := True,
                            sessionSeedUsesPassphrase := usePassphrase\<rparr>)))
      else Some (None, s))"

text \<open>
  The comparison loops of \<^verbatim>\<open>storage_containsMnemonic\<close> and \<^verbatim>\<open>storage_containsPin\<close>. The
  candidate is read up to its NUL (or the end of the list); \<open>stored i\<close> is the byte the
  loop reads at index \<open>i\<close> of the stored buffer. The difference of two \<^verbatim>\<open>char\<close>s is
  or-ed into a \<^verbatim>\<open>char\<close>, which keeps its low 8 bits: subtraction on \<open>u8\<close>. The result is
  \<open>diff\<close> and the index \<open>i\<close> the loop stops at.
\<close>

fun diff_loop :: "(nat \<Rightarrow> u8) \<Rightarrow> u8 list \<Rightarrow> nat \<Rightarrow> u8 \<Rightarrow> u8 \<times> nat" where
  "diff_loop stored [] i diff = (diff, i)"
| "diff_loop stored (c # cs) i diff =
     (if c = 0 then (diff, i) else diff_loop stored cs (Suc i) (diff OR (stored i - c)))"

text \<open>
  A read at index \<open>i\<close> of a buffer in the record: inside the buffer its byte, behind it
  whatever follows the field in memory (\<open>beyond\<close>, a parameter).
\<close>

definition read_at :: "u8 list \<Rightarrow> (nat \<Rightarrow> u8) \<Rightarrow> nat \<Rightarrow> u8" where
  "read_at buf beyond i = (if i < length buf then buf ! i else beyond (i - length buf))"

definition storage_containsMnemonic :: "(nat \<Rightarrow> u8) \<Rightarrow> u8 list \<Rightarrow> state \<Rightarrow> bool" where
  "storage_containsMnemonic beyond mn s =
     (let stored_mnemonic = read_at (mnemonic (storageRom s)) beyond
      in case diff_loop stored_mnemonic mn 0 0 of
           (diff, i) \<Rightarrow> diff OR stored_mnemonic i = 0)"

definition storage_containsPin :: "(nat \<Rightarrow> u8) \<Rightarrow> u8 list \<Rightarrow> state \<Rightarrow> bool" where
  "storage_containsPin beyond p s =
     (let stored_pin = read_at (pin (storageRom s)) beyond
      in case diff_loop stored_pin p 0 0 of
           (diff, i) \<Rightarrow> diff OR stored_pin i = 0)"

text \<open>
  \<^verbatim>\<open>session_getState(salt, state, passphrase)\<close>: \<open>salt\<close> and \<open>passphrase\<close> are \<open>None\<close> for a null
  pointer, \<open>rnd\<close> is what \<^verbatim>\<open>random_buffer\<close> delivers, and the result is the returned flag and
  the 64 bytes of \<open>state\<close>. The \<^verbatim>\<open>else\<close> branch of the first test assigns
  \<^verbatim>\<open>sessionPassphrase\<close> to the parameter.
\<close>

definition session_getState ::
  "crypto \<Rightarrow> u8 list \<Rightarrow> u8 list option \<Rightarrow> u8 list \<Rightarrow> u8 list option \<Rightarrow> state \<Rightarrow> bool \<times> u8 list" where
  "session_getState ext rnd salt st passphrase s =
     (if passphrase = None \<and> \<not> sessionPassphraseCached s then (False, st)
      else
        (let passphrase' = sessionPassphrase s;
             st1 = (case salt of None \<Rightarrow> take 32 rnd | Some sl \<Rightarrow> take 32 sl);
             mac = hmac_sha256 ext (cstr passphrase') (st1 @ storage_uuid s)
         in (True, st1 @ mac)))"

subsection \<open>PIN failure and U2F counters\<close>

text \<open>
  The loop \<^verbatim>\<open>while (*p == 0) p++\<close> over flash words, from the byte offset \<open>a\<close>: the
  offset of the first word that is not zero. The model's flash ends with the meta
  region; a loop that reads past it is \<open>None\<close>.
\<close>

function first_nonzero_word :: "(nat \<Rightarrow> u32) \<Rightarrow> nat \<Rightarrow> nat option" where
  "first_nonzero_word f a =
     (if FLASH_META_END \<le> a then None
      else if f a = 0 then first_nonzero_word f (a + 4)
      else Some a)"
  by pat_completeness auto
termination
  by (relation "measure (\<lambda>(f, a). FLASH_META_END - a)") auto

declare first_nonzero_word.simps [simp del]

definition storage_getPinFailsOffset :: "state \<Rightarrow> nat option" where
  "storage_getPinFailsOffset s = first_nonzero_word (flash s) FLASH_STORAGE_PINAREA"

text \<open>
  \<^verbatim>\<open>storage_area_recycle(new_pinfails)\<close>: the magic word is programmed to zero and read
  back, the last sector is erased, the PIN word is programmed and read back, the U2F
  offset is added to the staged \<open>u2f_counter\<close>, and the record is committed.
\<close>

definition storage_area_recycle :: "crypto \<Rightarrow> u32 \<Rightarrow> state \<Rightarrow> state option" where
  "storage_area_recycle ext new_pinfails s =
     (let s1 = s\<lparr>flash_magic := flash_magic s AND 0\<rparr>
      in if flash_magic s1 \<noteq> 0 then None
         else
           (let s2 = svc_flash_erase_sector_last s1;
                s3 = flash_write32 FLASH_STORAGE_PINAREA new_pinfails s2
            in if flash s3 FLASH_STORAGE_PINAREA \<noteq> new_pinfails then None
               else
                 (let s4 = s3\<lparr>storageUpdate := (storageUpdate s3)\<lparr>
                               has_u2f_counter := True,
                               u2f_counter := u2f_counter (storageUpdate s3) + storage_u2f_offset s3\<rparr>,
                             storage_u2f_offset := 0\<rparr>
                  in Some (storage_commit_locked ext True s4))))"

definition storage_clearPinArea :: "state \<Rightarrow> state option" where
  "storage_clearPinArea s =
     (case storage_check_flash_errors (svc_flash_erase_sector_last s) of
        None \<Rightarrow> None
      | Some s1 \<Rightarrow> Some (s1\<lparr>storage_u2f_offset := 0\<rparr>))"




definition storage_nextU2FCounter :: "crypto \<Rightarrow> state \<Rightarrow> (u32 \<times> state) option" where
  "storage_nextU2FCounter ext s =
     (let flash_u2f_offset = FLASH_STORAGE_U2FAREA + 4 * (unat (storage_u2f_offset s) div 32);
          newval = push_bit (unat (storage_u2f_offset s AND 31)) (0xfffffffe :: u32);
          s1 = flash_write32 flash_u2f_offset newval s;
          s2 = s1\<lparr>storage_u2f_offset := storage_u2f_offset s1 + 1\<rparr>
      in case (if 8 * FLASH_STORAGE_U2FAREA_LEN \<le> unat (storage_u2f_offset s2)
               then (case storage_getPinFailsOffset s2 of
                       None \<Rightarrow> None
                     | Some a \<Rightarrow> storage_area_recycle ext (flash s2 a) s2)
               else Some s2) of
           None \<Rightarrow> None
         | Some s3 \<Rightarrow>
             (case storage_check_flash_errors s3 of
                None \<Rightarrow> None
              | Some s4 \<Rightarrow> Some (u2f_counter (storageRom s4) + storage_u2f_offset s4, s4)))"

text \<open>The values of \<open>n\<close> successive calls of \<^verbatim>\<open>storage_nextU2FCounter\<close>, and the last state.\<close>

fun u2f_calls :: "crypto \<Rightarrow> nat \<Rightarrow> state \<Rightarrow> (u32 list \<times> state) option" where
  "u2f_calls ext 0 s = Some ([], s)"
| "u2f_calls ext (Suc n) s =
     (case storage_nextU2FCounter ext s of
        None \<Rightarrow> None
      | Some (v, s1) \<Rightarrow>
          (case u2f_calls ext n s1 of
             None \<Rightarrow> None
           | Some (vs, s2) \<Rightarrow> Some (v # vs, s2)))"


subsection \<open>Boot and wipe\<close>

definition storage_generate_uuid :: "u8 list \<Rightarrow> state \<Rightarrow> state" where
  "storage_generate_uuid rnd s = s\<lparr>storage_uuid := take 12 rnd\<rparr>"

definition storage_wipe :: "crypto \<Rightarrow> u8 list \<Rightarrow> state \<Rightarrow> state option" where
  "storage_wipe ext rnd s =
     (case storage_check_flash_errors
             (storage_commit_locked ext False (storage_generate_uuid rnd (session_clear True s))) of
        None \<Rightarrow> None
      | Some s1 \<Rightarrow> storage_clearPinArea s1)"

text \<open>
  The build: whether \<^verbatim>\<open>SUPPORT_LEGACY_VERSION\<close> is defined, and what the legacy branch
  takes from the layout of \<^verbatim>\<open>Storage\<close> (messages.pb.h, not among the sources):
  \<^verbatim>\<open>OLD_STORAGE_SIZE(member)\<close>, \<^verbatim>\<open>sizeof(Storage)\<close>, and the record whose image is the
  given one with every word from a byte offset on programmed to zero.
\<close>

datatype legacy_member = M_imported | M_homescreen | M_u2f_counter | M_flags | M_u2froot

record build =
  SUPPORT_LEGACY_VERSION :: bool
  OLD_STORAGE_SIZE :: "legacy_member \<Rightarrow> nat"
  sizeof_Storage :: nat
  zero_image_from :: "nat \<Rightarrow> Storage \<Rightarrow> Storage"

text \<open>
  The second loop of the U2F scan, \<^verbatim>\<open>while ((u2fword & 1) == 0)\<close>: it does not end on a
  zero word (\<open>None\<close>); the first loop hands it a word that is not zero.
\<close>

function u2f_count_bits :: "u32 \<Rightarrow> u32 \<Rightarrow> u32 option" where
  "u2f_count_bits offset u2fword =
     (if u2fword = 0 then None
      else if u2fword AND 1 = 0 then u2f_count_bits (offset + 1) (drop_bit 1 u2fword)
      else Some offset)"
  by pat_completeness auto
termination
proof (relation "measure (\<lambda>(offset, w). unat w)")
  show "wf (measure (\<lambda>(offset, w). unat w))" by simp
next
  fix offset u2fword :: u32
  assume "u2fword \<noteq> 0"
  then have "0 < unat u2fword" by (simp add: unat_gt_0)
  then have "unat u2fword div 2 < unat u2fword" by simp
  then show "((offset + 1, drop_bit 1 u2fword), (offset, u2fword)) \<in> measure (\<lambda>(offset, w). unat w)"
    by (simp add: drop_bit_eq_div unat_div)
qed

declare u2f_count_bits.simps [simp del]

text \<open>The block of \<^verbatim>\<open>storage_from_flash\<close> under \<^verbatim>\<open>#ifdef SUPPORT_LEGACY_VERSION\<close>.\<close>

definition legacy_old_storage_size :: "build \<Rightarrow> u32 \<Rightarrow> nat" where
  "legacy_old_storage_size bld v =
     (if v = 0 then 0
      else if v \<le> 2 then OLD_STORAGE_SIZE bld M_imported
      else if v \<le> 5 then OLD_STORAGE_SIZE bld M_homescreen
      else if v \<le> 7 then OLD_STORAGE_SIZE bld M_u2f_counter
      else if v \<le> 8 then OLD_STORAGE_SIZE bld M_flags
      else if v \<le> 9 then OLD_STORAGE_SIZE bld M_u2froot
      else 0)"

definition legacy_erase_new_fields :: "build \<Rightarrow> u32 \<Rightarrow> state \<Rightarrow> state option" where
  "legacy_erase_new_fields bld v s =
     (if legacy_old_storage_size bld v \<noteq> sizeof_Storage bld
      then storage_check_flash_errors
             (s\<lparr>storageRom := zero_image_from bld (legacy_old_storage_size bld v) (storageRom s)\<rparr>)
      else Some s)"

definition legacy_convert_pin_failures :: "u32 \<Rightarrow> state \<Rightarrow> state option" where
  "legacy_convert_pin_failures v s =
     (if v \<le> 5 then
        (let pinctr0 = (if has_pin_failed_attempts (storageRom s)
                        then pin_failed_attempts (storageRom s) else 0);
             pinctr = (if pinctr0 > 31 then 31 else pinctr0)
         in storage_check_flash_errors
              (flash_write32 FLASH_STORAGE_PINAREA (push_bit (unat pinctr) 0xffffffff)
                 (svc_flash_erase_sector_last s)))
      else Some s)"

definition legacy_scan_u2f :: "state \<Rightarrow> state option" where
  "legacy_scan_u2f s =
     (case first_nonzero_word (flash s) FLASH_STORAGE_U2FAREA of
        None \<Rightarrow> None
      | Some a \<Rightarrow>
          (case u2f_count_bits (32 * of_nat ((a - FLASH_STORAGE_U2FAREA) div 4)) (flash s a) of
             None \<Rightarrow> None
           | Some offset \<Rightarrow> Some (s\<lparr>storage_u2f_offset := offset\<rparr>)))"

definition legacy_from_flash :: "crypto \<Rightarrow> build \<Rightarrow> u32 \<Rightarrow> state \<Rightarrow> (bool \<times> state) option" where
  "legacy_from_flash ext bld v s =
     (case legacy_erase_new_fields bld v s of
        None \<Rightarrow> None
      | Some s1 \<Rightarrow>
     (case legacy_convert_pin_failures v s1 of
        None \<Rightarrow> None
      | Some s2 \<Rightarrow>
     (case legacy_scan_u2f s2 of
        None \<Rightarrow> None
      | Some s3 \<Rightarrow>
          (let s4 = (if v < 9
                     then s3\<lparr>storageUpdate := (storageUpdate s3)\<lparr>
                            has_mnemonic := has_mnemonic (storageRom s3),
                            mnemonic := strlcpy (mnemonic (storageUpdate s3))
                                          (mnemonic (storageRom s3)) sizeof_mnemonic\<rparr>\<rparr>
                     else s3)
           in if v \<noteq> STORAGE_VERSION
              then (case storage_update ext s4 of None \<Rightarrow> None | Some s5 \<Rightarrow> Some (True, s5))
              else Some (True, s4)))))"

definition storage_from_flash :: "crypto \<Rightarrow> build \<Rightarrow> state \<Rightarrow> (bool \<times> state) option" where
  "storage_from_flash ext bld s0 =
     (let s = storage_clear_update s0
      in if flash_magic s \<noteq> storage_magic then Some (False, s)
         else if version (storageRom s) > STORAGE_VERSION then Some (False, s)
         else
           (let s1 = s\<lparr>storage_uuid := flash_uuid s\<rparr>
            in if SUPPORT_LEGACY_VERSION bld
               then legacy_from_flash ext bld (version (storageRom s)) s1
               else if version (storageRom s) \<noteq> STORAGE_VERSION then Some (False, s1)
               else Some (True, s1)))"

definition storage_init :: "crypto \<Rightarrow> build \<Rightarrow> u8 list \<Rightarrow> state \<Rightarrow> state option" where
  "storage_init ext bld rnd s =
     (case storage_from_flash ext bld s of
        None \<Rightarrow> None
      | Some (ok, s1) \<Rightarrow> if \<not> ok then storage_wipe ext rnd s1 else Some s1)"

subsection \<open>Example inputs\<close>

text \<open>
  A stand-in for the library, used only to evaluate the model at concrete inputs; the
  theorems hold for every library.
\<close>

definition toy_crypto :: crypto where
  "toy_crypto = \<lparr>
     mnemonic_to_seed = (\<lambda>m p. take 64 (m @ p @ replicate 64 0)),
     mnemonic_check = (\<lambda>m. True),
     hdnode_from_seed_nist256p1 =
       (\<lambda>seed. \<lparr>hd_depth = 0, hd_chain_code = take 32 seed, hd_private_key = drop 32 seed\<rparr>),
     hdnode_private_ckd = (\<lambda>n i. n\<lparr>hd_depth := hd_depth n + 1\<rparr>),
     U2F_KEY_PATH = 0x80553246,
     hmac_sha256 = (\<lambda>k m. take 32 (k @ m @ replicate 32 0))\<rparr>"

text \<open>
  A device right after a wipe: valid magic, the all-zero record, the last sector
  erased, nothing staged, nothing cached.
\<close>

definition fresh_device :: state where
  "fresh_device = \<lparr>
     flash_magic = storage_magic,
     flash_uuid = replicate 12 7,
     storageRom = zero_Storage,
     flash = (\<lambda>a. 0xffffffff),
     erases = 0,
     FLASH_SR = 0,
     storage_uuid = replicate 12 7,
     storageUpdate = zero_Storage,
     storage_u2f_offset = 0,
     sessionSeedCached = False,
     sessionSeedUsesPassphrase = False,
     sessionSeed = replicate 64 0,
     sessionPinCached = False,
     sessionPassphraseCached = False,
     sessionPassphrase = replicate 51 0\<rparr>"

text \<open>The strings of a record end inside their buffers.\<close>

definition Storage_strings_fit :: "Storage \<Rightarrow> bool" where
  "Storage_strings_fit R =
     (length (cstr (mnemonic R)) < sizeof_mnemonic \<and> length (cstr (pin R)) < sizeof_pin \<and>
      length (cstr (language R)) < sizeof_language \<and> length (cstr (label R)) < sizeof_label)"

text \<open>
  A record as a commit leaves it: mnemonic "abc", PIN "1234", label "L", flag bit 0,
  backup needed, U2F counter 5.
\<close>

definition example_rom :: Storage where
  "example_rom = zero_Storage\<lparr>
     version := STORAGE_VERSION,
     has_mnemonic := True, mnemonic := [0x61, 0x62, 0x63] @ replicate 238 0,
     has_pin := True, pin := [0x31, 0x32, 0x33, 0x34] @ replicate 6 0,
     has_label := True, label := [0x4C] @ replicate 32 0,
     has_u2f_counter := True, u2f_counter := 5,
     has_needs_backup := True, needs_backup := True,
     has_flags := True, flags := 1,
     has_u2froot := True\<rparr>"

definition configured_device :: state where
  "configured_device = fresh_device\<lparr>storageRom := example_rom\<rparr>"

text \<open>The configured device with a seed and the passphrase "p" cached.\<close>

definition cached_device :: state where
  "cached_device = configured_device\<lparr>
     sessionSeedCached := True, sessionSeed := replicate 64 0xAA,
     sessionPassphraseCached := True, sessionPassphrase := [0x70] @ replicate 50 0,
     sessionPinCached := True\<rparr>"


text \<open>
  The build without \<^verbatim>\<open>SUPPORT_LEGACY_VERSION\<close>: the layout fields belong to the legacy
  branch, which this build does not have, and are never read.
\<close>

definition release_build :: build where
  "release_build = \<lparr>SUPPORT_LEGACY_VERSION = False, OLD_STORAGE_SIZE = (\<lambda>m. 0),
     sizeof_Storage = 0, zero_image_from = (\<lambda>n r. r)\<rparr>"

text \<open>
  A record of storage version 5, which kept the count of PIN failures in the record:
  the example record with three failures counted.
\<close>

definition v5_rom :: Storage where
  "v5_rom = example_rom\<lparr>version := 5, has_pin_failed_attempts := True,
     pin_failed_attempts := 3\<rparr>"

definition v5_device :: state where
  "v5_device = fresh_device\<lparr>storageRom := v5_rom\<rparr>"

text \<open>
  A device with fresh counters: U2F offset 0, stored U2F counter 0, nothing staged, the
  last sector erased, no flash error reported.
\<close>

definition fresh_counters :: "state \<Rightarrow> bool" where
  "fresh_counters s =
     (storage_u2f_offset s = 0 \<and> u2f_counter (storageRom s) = 0 \<and>
      storageUpdate s = zero_Storage \<and>
      (\<forall>a. FLASH_STORAGE_PINAREA \<le> a \<and> a < FLASH_META_END \<longrightarrow> flash s a = 0xffffffff) \<and>
      FLASH_SR s AND FLASH_SR_ERRORS = 0)"

text \<open>A \<^verbatim>\<open>protectPassphrase\<close> that reports a passphrase available and changes nothing.\<close>

definition no_prompt :: "state \<Rightarrow> bool \<times> state" where
  "no_prompt s = (True, s)"

text \<open>The record a commit with an update writes to flash.\<close>

definition merged_record :: "crypto \<Rightarrow> state \<Rightarrow> Storage" where
  "merged_record ext s = storageRom (storage_commit_locked ext True s)"

section \<open>Properties\<close>

subsection \<open>Selectors of the constant records\<close>

lemma zero_Storage_sel:
  "version zero_Storage = 0"
  "has_node zero_Storage = False"
  "node zero_Storage = zero_HDNode"
  "has_mnemonic zero_Storage = False"
  "mnemonic zero_Storage = replicate sizeof_mnemonic 0"
  "has_passphrase_protection zero_Storage = False"
  "passphrase_protection zero_Storage = False"
  "has_pin_failed_attempts zero_Storage = False"
  "pin_failed_attempts zero_Storage = 0"
  "has_pin zero_Storage = False"
  "pin zero_Storage = replicate sizeof_pin 0"
  "has_language zero_Storage = False"
  "language zero_Storage = replicate sizeof_language 0"
  "has_label zero_Storage = False"
  "label zero_Storage = replicate sizeof_label 0"
  "has_imported zero_Storage = False"
  "imported zero_Storage = False"
  "has_homescreen zero_Storage = False"
  "homescreen zero_Storage = zero_bytes sizeof_homescreen"
  "has_u2f_counter zero_Storage = False"
  "u2f_counter zero_Storage = 0"
  "has_needs_backup zero_Storage = False"
  "needs_backup zero_Storage = False"
  "has_flags zero_Storage = False"
  "flags zero_Storage = 0"
  "has_u2froot zero_Storage = False"
  "u2froot zero_Storage = zero_HDNode"
  by (simp_all add: zero_Storage_def)

lemma fresh_device_sel:
  "flash_magic fresh_device = storage_magic"
  "flash_uuid fresh_device = replicate 12 7"
  "storageRom fresh_device = zero_Storage"
  "flash fresh_device = (\<lambda>a. 0xffffffff)"
  "erases fresh_device = 0"
  "FLASH_SR fresh_device = 0"
  "storage_uuid fresh_device = replicate 12 7"
  "storageUpdate fresh_device = zero_Storage"
  "storage_u2f_offset fresh_device = 0"
  "sessionSeedCached fresh_device = False"
  "sessionSeedUsesPassphrase fresh_device = False"
  "sessionSeed fresh_device = replicate 64 0"
  "sessionPinCached fresh_device = False"
  "sessionPassphraseCached fresh_device = False"
  "sessionPassphrase fresh_device = replicate 51 0"
  by (simp_all add: fresh_device_def)

subsection \<open>C strings\<close>

lemma cstr_no_NUL: "0 \<notin> set (cstr buf)"
  unfolding cstr_def by (induction buf) auto

lemma cstr_append_NUL: "0 \<notin> set xs \<Longrightarrow> cstr (xs @ 0 # ys) = xs"
  unfolding cstr_def by (induction xs) auto

lemma cstr_strlcpy: "0 < n \<Longrightarrow> cstr (strlcpy dst src n) = take (n - 1) (cstr src)"
proof -
  assume n: "0 < n"
  let ?k = "min (length (cstr src)) (n - 1)"
  have "0 \<notin> set (take ?k (cstr src))"
    using cstr_no_NUL [of src] by (auto dest: in_set_takeD)
  then have "cstr (take ?k (cstr src) @ 0 # drop (Suc ?k) dst) = take ?k (cstr src)"
    by (rule cstr_append_NUL)
  moreover have "take ?k (cstr src) = take (n - 1) (cstr src)"
    by (simp add: min_def)
  ultimately show ?thesis
    using n by (simp add: strlcpy_def Let_def)
qed

lemma cstr_strlcpy_fits:
  "length (cstr src) < n \<Longrightarrow> cstr (strlcpy dst src n) = cstr src"
  by (simp add: cstr_strlcpy)

subsection \<open>The merge, block by block\<close>

text \<open>
  Each block of the merge changes two fields of the update record; written as one record
  update, the blocks compose without a case split.
\<close>

lemma merge_passphrase_protection_nf:
  "merge_passphrase_protection R U =
     U\<lparr>has_passphrase_protection :=
         (if has_passphrase_protection U then True else has_passphrase_protection R),
       passphrase_protection :=
         (if has_passphrase_protection U then passphrase_protection U
          else passphrase_protection R)\<rparr>"
  by (simp add: merge_passphrase_protection_def)

lemma merge_pin_nf:
  "merge_pin R U =
     U\<lparr>has_pin := (if has_pin U then cstr (pin U) \<noteq> [] else has_pin R),
       pin := (if has_pin U then pin U else strlcpy (pin U) (pin R) sizeof_pin)\<rparr>"
  by (simp add: merge_pin_def)

lemma merge_language_nf:
  "merge_language R U =
     U\<lparr>has_language := (if has_language U then True else has_language R),
       language := (if has_language U then language U
                    else strlcpy (language U) (language R) sizeof_language)\<rparr>"
  by (simp add: merge_language_def)

lemma merge_label_nf:
  "merge_label R U =
     U\<lparr>has_label := (if has_label U then cstr (label U) \<noteq> [] else has_label R),
       label := (if has_label U then label U else strlcpy (label U) (label R) sizeof_label)\<rparr>"
  by (simp add: merge_label_def)

lemma merge_imported_nf:
  "merge_imported R U =
     U\<lparr>has_imported := (if has_imported U then True else has_imported R),
       imported := (if has_imported U then imported U else imported R)\<rparr>"
  by (simp add: merge_imported_def)

lemma merge_homescreen_nf:
  "merge_homescreen R U =
     U\<lparr>has_homescreen :=
         (if has_homescreen U then bsize (homescreen U) \<noteq> 0 else has_homescreen R),
       homescreen := (if has_homescreen U then homescreen U else homescreen R)\<rparr>"
  by (simp add: merge_homescreen_def)

lemma merge_u2f_counter_nf:
  "merge_u2f_counter R U =
     U\<lparr>has_u2f_counter := (if has_u2f_counter U then True else has_u2f_counter R),
       u2f_counter := (if has_u2f_counter U then u2f_counter U else u2f_counter R)\<rparr>"
  by (simp add: merge_u2f_counter_def)

lemma merge_needs_backup_nf:
  "merge_needs_backup R U =
     U\<lparr>has_needs_backup := (if has_needs_backup U then True else has_needs_backup R),
       needs_backup := (if has_needs_backup U then needs_backup U else needs_backup R)\<rparr>"
  by (simp add: merge_needs_backup_def)

lemma merge_flags_nf:
  "merge_flags R U =
     U\<lparr>has_flags := (if has_flags U then True else has_flags R),
       flags := (if has_flags U then flags U else flags R)\<rparr>"
  by (simp add: merge_flags_def)

lemmas merge_block_nf = merge_passphrase_protection_nf merge_pin_nf merge_language_nf
  merge_label_nf merge_imported_nf merge_homescreen_nf merge_u2f_counter_nf
  merge_needs_backup_nf merge_flags_nf

lemma merge_policy_nf:
  "merge_policy R U =
     U\<lparr>has_passphrase_protection :=
         (if has_passphrase_protection U then True else has_passphrase_protection R),
       passphrase_protection :=
         (if has_passphrase_protection U then passphrase_protection U
          else passphrase_protection R),
       has_pin := (if has_pin U then cstr (pin U) \<noteq> [] else has_pin R),
       pin := (if has_pin U then pin U else strlcpy (pin U) (pin R) sizeof_pin),
       has_language := (if has_language U then True else has_language R),
       language := (if has_language U then language U
                    else strlcpy (language U) (language R) sizeof_language),
       has_label := (if has_label U then cstr (label U) \<noteq> [] else has_label R),
       label := (if has_label U then label U else strlcpy (label U) (label R) sizeof_label),
       has_imported := (if has_imported U then True else has_imported R),
       imported := (if has_imported U then imported U else imported R),
       has_homescreen :=
         (if has_homescreen U then bsize (homescreen U) \<noteq> 0 else has_homescreen R),
       homescreen := (if has_homescreen U then homescreen U else homescreen R),
       has_u2f_counter := (if has_u2f_counter U then True else has_u2f_counter R),
       u2f_counter := (if has_u2f_counter U then u2f_counter U else u2f_counter R),
       has_needs_backup := (if has_needs_backup U then True else has_needs_backup R),
       needs_backup := (if has_needs_backup U then needs_backup U else needs_backup R),
       has_flags := (if has_flags U then True else has_flags R),
       flags := (if has_flags U then flags U else flags R)\<rparr>"
  unfolding merge_policy_def
  by (simp add: merge_block_nf split del: if_split cong: if_cong)

subsection \<open>The commit, field by field\<close>

lemma commit_session_flags_nf:
  "commit_session_flags s =
     s\<lparr>sessionSeedCached :=
         (if has_passphrase_protection (storageUpdate s) then False else sessionSeedCached s),
       sessionPassphraseCached :=
         (if has_passphrase_protection (storageUpdate s) then False
          else sessionPassphraseCached s),
       sessionPinCached := (if has_pin (storageUpdate s) then False else sessionPinCached s)\<rparr>"
  by (simp add: commit_session_flags_def Let_def)

lemma merge_secret_update:
  "storageUpdate (merge_secret ext s) =
     (storageUpdate s)\<lparr>
       has_node := (if \<not> has_node (storageUpdate s) \<and> \<not> has_mnemonic (storageUpdate s)
                    then has_node (storageRom s) else has_node (storageUpdate s)),
       node := (if \<not> has_node (storageUpdate s) \<and> \<not> has_mnemonic (storageUpdate s)
                then node (storageRom s) else node (storageUpdate s)),
       has_mnemonic := (if \<not> has_node (storageUpdate s) \<and> \<not> has_mnemonic (storageUpdate s)
                        then has_mnemonic (storageRom s) else has_mnemonic (storageUpdate s)),
       mnemonic := (if \<not> has_node (storageUpdate s) \<and> \<not> has_mnemonic (storageUpdate s)
                    then strlcpy (mnemonic (storageUpdate s)) (mnemonic (storageRom s)) sizeof_mnemonic
                    else mnemonic (storageUpdate s)),
       has_u2froot := (if \<not> has_node (storageUpdate s) \<and> \<not> has_mnemonic (storageUpdate s)
                       then has_u2froot (storageRom s)
                       else if has_mnemonic (storageUpdate s) then True
                       else has_u2froot (storageUpdate s)),
       u2froot := (if \<not> has_node (storageUpdate s) \<and> \<not> has_mnemonic (storageUpdate s)
                   then u2froot (storageRom s)
                   else if has_mnemonic (storageUpdate s)
                   then fst (storage_compute_u2froot ext (mnemonic (storageUpdate s))
                               (u2froot (storageUpdate s)) s)
                   else u2froot (storageUpdate s))\<rparr>"
  by (simp add: merge_secret_def Let_def split: prod.split)

lemma merge_secret_rom: "storageRom (merge_secret ext s) = storageRom s"
  by (simp add: merge_secret_def Let_def storage_compute_u2froot_def session_clear_def split: prod.split)


lemma merge_secret_sel:
  "flash_magic (merge_secret ext s) = flash_magic s"
  "flash_uuid (merge_secret ext s) = flash_uuid s"
  "flash (merge_secret ext s) = flash s"
  "erases (merge_secret ext s) = erases s"
  "FLASH_SR (merge_secret ext s) = FLASH_SR s"
  "storage_uuid (merge_secret ext s) = storage_uuid s"
  "storage_u2f_offset (merge_secret ext s) = storage_u2f_offset s"
  "sessionSeedUsesPassphrase (merge_secret ext s) = sessionSeedUsesPassphrase s"
  "sessionPinCached (merge_secret ext s) = sessionPinCached s"
  "sessionSeedCached (merge_secret ext s) =
     (if has_mnemonic (storageUpdate s) then False else sessionSeedCached s)"
  "sessionSeed (merge_secret ext s) =
     (if has_mnemonic (storageUpdate s) then replicate 64 0 else sessionSeed s)"
  "sessionPassphraseCached (merge_secret ext s) =
     (if has_mnemonic (storageUpdate s) then False else sessionPassphraseCached s)"
  "sessionPassphrase (merge_secret ext s) =
     (if has_mnemonic (storageUpdate s) then replicate 51 0 else sessionPassphrase s)"
  by (simp_all add: merge_secret_def Let_def storage_compute_u2froot_def session_clear_def)

lemma commit_merge_sel:
  "flash_magic (commit_merge ext s) = flash_magic s"
  "flash_uuid (commit_merge ext s) = flash_uuid s"
  "storageRom (commit_merge ext s) = storageRom s"
  "flash (commit_merge ext s) = flash s"
  "erases (commit_merge ext s) = erases s"
  "FLASH_SR (commit_merge ext s) = FLASH_SR s"
  "storage_uuid (commit_merge ext s) = storage_uuid s"
  "storage_u2f_offset (commit_merge ext s) = storage_u2f_offset s"
  "sessionSeedUsesPassphrase (commit_merge ext s) = sessionSeedUsesPassphrase s"
  "sessionPinCached (commit_merge ext s) =
     (if has_pin (storageUpdate s) then False else sessionPinCached s)"
  "sessionSeedCached (commit_merge ext s) =
     (if has_mnemonic (storageUpdate s) then False
      else if has_passphrase_protection (storageUpdate s) then False else sessionSeedCached s)"
  "sessionSeed (commit_merge ext s) =
     (if has_mnemonic (storageUpdate s) then replicate 64 0 else sessionSeed s)"
  "sessionPassphraseCached (commit_merge ext s) =
     (if has_mnemonic (storageUpdate s) then False
      else if has_passphrase_protection (storageUpdate s) then False
      else sessionPassphraseCached s)"
  "sessionPassphrase (commit_merge ext s) =
     (if has_mnemonic (storageUpdate s) then replicate 51 0 else sessionPassphrase s)"
  by (simp_all add: commit_merge_def Let_def commit_session_flags_nf merge_secret_sel
        merge_secret_rom split del: if_split cong: if_cong)

lemma commit_merge_update:
  "storageUpdate (commit_merge ext s) =
     merge_policy (storageRom s)
       (storageUpdate (merge_secret ext
          (commit_session_flags s\<lparr>storageUpdate := (storageUpdate s)\<lparr>version := STORAGE_VERSION\<rparr>\<rparr>)))"
  by (simp add: commit_merge_def Let_def commit_session_flags_nf merge_secret_rom split del: if_split cong: if_cong)

lemma storage_commit_locked_sel:
  "flash_magic (storage_commit_locked ext b s) = storage_magic"
  "flash_uuid (storage_commit_locked ext b s) = storage_uuid s"
  "flash (storage_commit_locked ext b s) = flash s"
  "erases (storage_commit_locked ext b s) = erases s"
  "FLASH_SR (storage_commit_locked ext b s) = FLASH_SR s"
  "storage_uuid (storage_commit_locked ext b s) = storage_uuid s"
  "storage_u2f_offset (storage_commit_locked ext b s) = storage_u2f_offset s"
  "storageUpdate (storage_commit_locked ext b s) = zero_Storage"
  "sessionSeedUsesPassphrase (storage_commit_locked ext b s) = sessionSeedUsesPassphrase s"
  by (simp_all add: storage_commit_locked_def Let_def storage_clear_update_def commit_merge_sel)

lemma storage_commit_locked_True_session:
  "sessionPinCached (storage_commit_locked ext True s) =
     (if has_pin (storageUpdate s) then False else sessionPinCached s)"
  "sessionSeedCached (storage_commit_locked ext True s) =
     (if has_mnemonic (storageUpdate s) then False
      else if has_passphrase_protection (storageUpdate s) then False else sessionSeedCached s)"
  "sessionSeed (storage_commit_locked ext True s) =
     (if has_mnemonic (storageUpdate s) then replicate 64 0 else sessionSeed s)"
  "sessionPassphraseCached (storage_commit_locked ext True s) =
     (if has_mnemonic (storageUpdate s) then False
      else if has_passphrase_protection (storageUpdate s) then False
      else sessionPassphraseCached s)"
  "sessionPassphrase (storage_commit_locked ext True s) =
     (if has_mnemonic (storageUpdate s) then replicate 51 0 else sessionPassphrase s)"
  by (simp_all add: storage_commit_locked_def Let_def storage_clear_update_def commit_merge_sel
        split del: if_split cong: if_cong)

lemma storage_commit_locked_False_session:
  "sessionPinCached (storage_commit_locked ext False s) = sessionPinCached s"
  "sessionSeedCached (storage_commit_locked ext False s) = sessionSeedCached s"
  "sessionSeed (storage_commit_locked ext False s) = sessionSeed s"
  "sessionPassphraseCached (storage_commit_locked ext False s) = sessionPassphraseCached s"
  "sessionPassphrase (storage_commit_locked ext False s) = sessionPassphrase s"
  "storageRom (storage_commit_locked ext False s) = zero_Storage"
  by (simp_all add: storage_commit_locked_def Let_def storage_clear_update_def)

lemma storage_commit_locked_True_rom:
  "storageRom (storage_commit_locked ext True s) =
     merge_policy (storageRom s)
       (storageUpdate (merge_secret ext
          (commit_session_flags s\<lparr>storageUpdate := (storageUpdate s)\<lparr>version := STORAGE_VERSION\<rparr>\<rparr>)))"
  by (simp add: storage_commit_locked_def Let_def storage_clear_update_def commit_merge_update)

lemma committed_policy_fields:
  "version (storageRom (storage_commit_locked ext True s)) = STORAGE_VERSION"
  "has_passphrase_protection (storageRom (storage_commit_locked ext True s)) =
     (if has_passphrase_protection (storageUpdate s) then True
      else has_passphrase_protection (storageRom s))"
  "passphrase_protection (storageRom (storage_commit_locked ext True s)) =
     (if has_passphrase_protection (storageUpdate s) then passphrase_protection (storageUpdate s)
      else passphrase_protection (storageRom s))"
  "has_pin_failed_attempts (storageRom (storage_commit_locked ext True s)) =
     has_pin_failed_attempts (storageUpdate s)"
  "pin_failed_attempts (storageRom (storage_commit_locked ext True s)) =
     pin_failed_attempts (storageUpdate s)"
  "has_pin (storageRom (storage_commit_locked ext True s)) =
     (if has_pin (storageUpdate s) then cstr (pin (storageUpdate s)) \<noteq> []
      else has_pin (storageRom s))"
  "pin (storageRom (storage_commit_locked ext True s)) =
     (if has_pin (storageUpdate s) then pin (storageUpdate s)
      else strlcpy (pin (storageUpdate s)) (pin (storageRom s)) sizeof_pin)"
  "has_language (storageRom (storage_commit_locked ext True s)) =
     (if has_language (storageUpdate s) then True else has_language (storageRom s))"
  "language (storageRom (storage_commit_locked ext True s)) =
     (if has_language (storageUpdate s) then language (storageUpdate s)
      else strlcpy (language (storageUpdate s)) (language (storageRom s)) sizeof_language)"
  "has_label (storageRom (storage_commit_locked ext True s)) =
     (if has_label (storageUpdate s) then cstr (label (storageUpdate s)) \<noteq> []
      else has_label (storageRom s))"
  "label (storageRom (storage_commit_locked ext True s)) =
     (if has_label (storageUpdate s) then label (storageUpdate s)
      else strlcpy (label (storageUpdate s)) (label (storageRom s)) sizeof_label)"
  "has_imported (storageRom (storage_commit_locked ext True s)) =
     (if has_imported (storageUpdate s) then True else has_imported (storageRom s))"
  "imported (storageRom (storage_commit_locked ext True s)) =
     (if has_imported (storageUpdate s) then imported (storageUpdate s)
      else imported (storageRom s))"
  "has_homescreen (storageRom (storage_commit_locked ext True s)) =
     (if has_homescreen (storageUpdate s) then bsize (homescreen (storageUpdate s)) \<noteq> 0
      else has_homescreen (storageRom s))"
  "homescreen (storageRom (storage_commit_locked ext True s)) =
     (if has_homescreen (storageUpdate s) then homescreen (storageUpdate s)
      else homescreen (storageRom s))"
  "has_u2f_counter (storageRom (storage_commit_locked ext True s)) =
     (if has_u2f_counter (storageUpdate s) then True else has_u2f_counter (storageRom s))"
  "u2f_counter (storageRom (storage_commit_locked ext True s)) =
     (if has_u2f_counter (storageUpdate s) then u2f_counter (storageUpdate s)
      else u2f_counter (storageRom s))"
  "has_needs_backup (storageRom (storage_commit_locked ext True s)) =
     (if has_needs_backup (storageUpdate s) then True else has_needs_backup (storageRom s))"
  "needs_backup (storageRom (storage_commit_locked ext True s)) =
     (if has_needs_backup (storageUpdate s) then needs_backup (storageUpdate s)
      else needs_backup (storageRom s))"
  "has_flags (storageRom (storage_commit_locked ext True s)) =
     (if has_flags (storageUpdate s) then True else has_flags (storageRom s))"
  "flags (storageRom (storage_commit_locked ext True s)) =
     (if has_flags (storageUpdate s) then flags (storageUpdate s) else flags (storageRom s))"
  by (simp_all add: storage_commit_locked_True_rom merge_policy_nf merge_secret_update
        commit_session_flags_nf split del: if_split cong: if_cong)

lemma committed_secret_fields:
  "has_node (storageRom (storage_commit_locked ext True s)) =
     (if \<not> has_node (storageUpdate s) \<and> \<not> has_mnemonic (storageUpdate s)
      then has_node (storageRom s) else has_node (storageUpdate s))"
  "node (storageRom (storage_commit_locked ext True s)) =
     (if \<not> has_node (storageUpdate s) \<and> \<not> has_mnemonic (storageUpdate s)
      then node (storageRom s) else node (storageUpdate s))"
  "has_mnemonic (storageRom (storage_commit_locked ext True s)) =
     (if \<not> has_node (storageUpdate s) \<and> \<not> has_mnemonic (storageUpdate s)
      then has_mnemonic (storageRom s) else has_mnemonic (storageUpdate s))"
  "mnemonic (storageRom (storage_commit_locked ext True s)) =
     (if \<not> has_node (storageUpdate s) \<and> \<not> has_mnemonic (storageUpdate s)
      then strlcpy (mnemonic (storageUpdate s)) (mnemonic (storageRom s)) sizeof_mnemonic
      else mnemonic (storageUpdate s))"
  "has_u2froot (storageRom (storage_commit_locked ext True s)) =
     (if \<not> has_node (storageUpdate s) \<and> \<not> has_mnemonic (storageUpdate s)
      then has_u2froot (storageRom s)
      else if has_mnemonic (storageUpdate s) then True else has_u2froot (storageUpdate s))"
  "\<not> has_mnemonic (storageUpdate s) \<Longrightarrow>
   u2froot (storageRom (storage_commit_locked ext True s)) =
     (if \<not> has_node (storageUpdate s)
      then u2froot (storageRom s) else u2froot (storageUpdate s))"
  by (simp_all add: storage_commit_locked_True_rom merge_policy_nf merge_secret_update
        commit_session_flags_nf split del: if_split cong: if_cong)

lemma example_rom_sel:
  "version example_rom = STORAGE_VERSION"
  "has_node example_rom = False"
  "node example_rom = zero_HDNode"
  "has_mnemonic example_rom = True"
  "mnemonic example_rom = [0x61, 0x62, 0x63] @ replicate 238 0"
  "has_passphrase_protection example_rom = False"
  "passphrase_protection example_rom = False"
  "has_pin example_rom = True"
  "pin example_rom = [0x31, 0x32, 0x33, 0x34] @ replicate 6 0"
  "has_language example_rom = False"
  "language example_rom = replicate sizeof_language 0"
  "has_label example_rom = True"
  "label example_rom = [0x4C] @ replicate 32 0"
  "has_imported example_rom = False"
  "imported example_rom = False"
  "has_homescreen example_rom = False"
  "homescreen example_rom = zero_bytes sizeof_homescreen"
  "has_u2f_counter example_rom = True"
  "u2f_counter example_rom = 5"
  "has_needs_backup example_rom = True"
  "needs_backup example_rom = True"
  "has_flags example_rom = True"
  "flags example_rom = 1"
  "has_u2froot example_rom = True"
  "u2froot example_rom = zero_HDNode"
  by (simp_all add: example_rom_def zero_Storage_sel)

lemma configured_device_sel:
  "flash_magic configured_device = storage_magic"
  "flash_uuid configured_device = replicate 12 7"
  "storageRom configured_device = example_rom"
  "flash configured_device = (\<lambda>a. 0xffffffff)"
  "erases configured_device = 0"
  "FLASH_SR configured_device = 0"
  "storage_uuid configured_device = replicate 12 7"
  "storageUpdate configured_device = zero_Storage"
  "storage_u2f_offset configured_device = 0"
  "sessionSeedCached configured_device = False"
  "sessionSeedUsesPassphrase configured_device = False"
  "sessionSeed configured_device = replicate 64 0"
  "sessionPinCached configured_device = False"
  "sessionPassphraseCached configured_device = False"
  "sessionPassphrase configured_device = replicate 51 0"
  by (simp_all add: configured_device_def fresh_device_sel)

subsection \<open>C6: fields the update does not set are carried forward\<close>

text \<open>
  The strings of the record end inside their buffers: the all-zero record has it, the
  setters keep it of the update record (they write strings with \<^verbatim>\<open>strlcpy\<close>), and a
  commit hands it from the update record to the record in flash, whatever was in flash
  before.
\<close>

lemma strlcpy_fits: "0 < n \<Longrightarrow> length (cstr (strlcpy dst src n)) < n"
  by (simp add: cstr_strlcpy)

lemma zero_Storage_fits: "Storage_strings_fit zero_Storage"
  by (simp add: Storage_strings_fit_def zero_Storage_sel cstr_def sizeof_mnemonic_def
        sizeof_pin_def sizeof_language_def sizeof_label_def)

lemma setters_keep_fit:
  assumes "Storage_strings_fit (storageUpdate s)"
  shows "Storage_strings_fit (storageUpdate (storage_setPin p s))"
    and "Storage_strings_fit (storageUpdate (snd (storage_setMnemonic mn s)))"
    and "Storage_strings_fit (storageUpdate (storage_setLabel lbl s))"
    and "Storage_strings_fit (storageUpdate (storage_setLanguage lang s))"
    and "Storage_strings_fit (storageUpdate (storage_setPassphraseProtection b s))"
    and "Storage_strings_fit (storageUpdate (storage_setImported b s))"
    and "Storage_strings_fit (storageUpdate (storage_setNeedsBackup b s))"
    and "Storage_strings_fit (storageUpdate (storage_applyFlags f s))"
    and "Storage_strings_fit (storageUpdate (storage_setU2FCounter c s))"
  using assms strlcpy_fits [of sizeof_pin] strlcpy_fits [of sizeof_mnemonic]
    strlcpy_fits [of sizeof_label] strlcpy_fits [of sizeof_language]
  by (simp_all add: Storage_strings_fit_def storage_setPin_def storage_setMnemonic_def
        storage_setLabel_def storage_setLanguage_def storage_setPassphraseProtection_def
        storage_setImported_def storage_setNeedsBackup_def storage_applyFlags_def
        storage_setU2FCounter_def Let_def sizeof_pin_def sizeof_mnemonic_def sizeof_label_def
        sizeof_language_def split: option.splits)

lemma commit_hands_on_fit:
  assumes "Storage_strings_fit (storageUpdate s)"
  shows "Storage_strings_fit (merged_record ext s)"
  using assms strlcpy_fits [of sizeof_pin] strlcpy_fits [of sizeof_mnemonic]
    strlcpy_fits [of sizeof_label] strlcpy_fits [of sizeof_language]
  unfolding merged_record_def Storage_strings_fit_def
  by (simp add: committed_policy_fields committed_secret_fields sizeof_pin_def
        sizeof_mnemonic_def sizeof_label_def sizeof_language_def)

lemma commit_without_update_fits:
  "Storage_strings_fit (storageRom (storage_commit_locked ext False s))"
  by (simp add: storage_commit_locked_False_session zero_Storage_fits)

text \<open>
  C6, as the code has it. A commit with an update staged: when the update sets neither
  \<open>has_node\<close> nor \<open>has_mnemonic\<close>, the committed record has node, mnemonic and u2froot,
  presence bits and values, as the record in flash had them; and each of
  passphrase_protection, pin, language, label, imported, homescreen, u2f_counter,
  needs_backup and flags whose presence bit the update leaves clear has the presence bit
  and value of the record in flash. A string field is carried as the C string, for a
  string in flash that ends inside its buffer. The tenth optional field,
  pin_failed_attempts, is not carried: the committed record has what the update record
  holds, also when the update leaves its presence bit clear. The committed record's
  strings end inside their buffers when the staged ones do.
\<close>

theorem commit_carries_unset_fields:
  "(\<not> has_node (storageUpdate s) \<and> \<not> has_mnemonic (storageUpdate s) \<longrightarrow>
      has_node (merged_record ext s) = has_node (storageRom s) \<and>
      node (merged_record ext s) = node (storageRom s) \<and>
      has_mnemonic (merged_record ext s) = has_mnemonic (storageRom s) \<and>
      (length (cstr (mnemonic (storageRom s))) < sizeof_mnemonic \<longrightarrow>
         cstr (mnemonic (merged_record ext s)) = cstr (mnemonic (storageRom s))) \<and>
      has_u2froot (merged_record ext s) = has_u2froot (storageRom s) \<and>
      u2froot (merged_record ext s) = u2froot (storageRom s)) \<and>
   (\<not> has_passphrase_protection (storageUpdate s) \<longrightarrow>
      has_passphrase_protection (merged_record ext s) =
        has_passphrase_protection (storageRom s) \<and>
      passphrase_protection (merged_record ext s) = passphrase_protection (storageRom s)) \<and>
   (\<not> has_pin (storageUpdate s) \<longrightarrow>
      has_pin (merged_record ext s) = has_pin (storageRom s) \<and>
      (length (cstr (pin (storageRom s))) < sizeof_pin \<longrightarrow>
         cstr (pin (merged_record ext s)) = cstr (pin (storageRom s)))) \<and>
   (\<not> has_language (storageUpdate s) \<longrightarrow>
      has_language (merged_record ext s) = has_language (storageRom s) \<and>
      (length (cstr (language (storageRom s))) < sizeof_language \<longrightarrow>
         cstr (language (merged_record ext s)) = cstr (language (storageRom s)))) \<and>
   (\<not> has_label (storageUpdate s) \<longrightarrow>
      has_label (merged_record ext s) = has_label (storageRom s) \<and>
      (length (cstr (label (storageRom s))) < sizeof_label \<longrightarrow>
         cstr (label (merged_record ext s)) = cstr (label (storageRom s)))) \<and>
   (\<not> has_imported (storageUpdate s) \<longrightarrow>
      has_imported (merged_record ext s) = has_imported (storageRom s) \<and>
      imported (merged_record ext s) = imported (storageRom s)) \<and>
   (\<not> has_homescreen (storageUpdate s) \<longrightarrow>
      has_homescreen (merged_record ext s) = has_homescreen (storageRom s) \<and>
      homescreen (merged_record ext s) = homescreen (storageRom s)) \<and>
   (\<not> has_u2f_counter (storageUpdate s) \<longrightarrow>
      has_u2f_counter (merged_record ext s) = has_u2f_counter (storageRom s) \<and>
      u2f_counter (merged_record ext s) = u2f_counter (storageRom s)) \<and>
   (\<not> has_needs_backup (storageUpdate s) \<longrightarrow>
      has_needs_backup (merged_record ext s) = has_needs_backup (storageRom s) \<and>
      needs_backup (merged_record ext s) = needs_backup (storageRom s)) \<and>
   (\<not> has_flags (storageUpdate s) \<longrightarrow>
      has_flags (merged_record ext s) = has_flags (storageRom s) \<and>
      flags (merged_record ext s) = flags (storageRom s)) \<and>
   has_pin_failed_attempts (merged_record ext s) = has_pin_failed_attempts (storageUpdate s) \<and>
   pin_failed_attempts (merged_record ext s) = pin_failed_attempts (storageUpdate s) \<and>
   (Storage_strings_fit (storageUpdate s) \<longrightarrow> Storage_strings_fit (merged_record ext s))"
proof -
  have strings:
    "length (cstr (mnemonic (storageRom s))) < sizeof_mnemonic \<longrightarrow>
       cstr (strlcpy (mnemonic (storageUpdate s)) (mnemonic (storageRom s)) sizeof_mnemonic) =
         cstr (mnemonic (storageRom s))"
    "length (cstr (pin (storageRom s))) < sizeof_pin \<longrightarrow>
       cstr (strlcpy (pin (storageUpdate s)) (pin (storageRom s)) sizeof_pin) =
         cstr (pin (storageRom s))"
    "length (cstr (language (storageRom s))) < sizeof_language \<longrightarrow>
       cstr (strlcpy (language (storageUpdate s)) (language (storageRom s)) sizeof_language) =
         cstr (language (storageRom s))"
    "length (cstr (label (storageRom s))) < sizeof_label \<longrightarrow>
       cstr (strlcpy (label (storageUpdate s)) (label (storageRom s)) sizeof_label) =
         cstr (label (storageRom s))"
    by (simp_all add: cstr_strlcpy_fits)
  have carried: "Storage_strings_fit (storageUpdate s) \<longrightarrow> Storage_strings_fit (merged_record ext s)"
    using commit_hands_on_fit [of s ext] by blast
  show ?thesis
    using strings carried
    by (simp add: merged_record_def committed_policy_fields committed_secret_fields)
qed

text \<open>
  C6 as stated fails for the optional field pin_failed_attempts: on a device whose
  record in flash has it present with value 3 and whose update record is all zero
  (presence bit clear), the committed record has it absent with value 0.
\<close>

theorem commit_drops_pin_failed_attempts:
  "\<not> has_pin_failed_attempts (storageUpdate v5_device) \<and>
   has_pin_failed_attempts (storageRom v5_device) \<and>
   pin_failed_attempts (storageRom v5_device) = 3 \<and>
   Storage_strings_fit (storageRom v5_device) \<and>
   \<not> has_pin_failed_attempts (merged_record toy_crypto v5_device) \<and>
   pin_failed_attempts (merged_record toy_crypto v5_device) = 0"
  by (simp add: merged_record_def committed_policy_fields v5_device_def v5_rom_def
        fresh_device_sel zero_Storage_sel Storage_strings_fit_def example_rom_sel cstr_def
        sizeof_mnemonic_def sizeof_pin_def sizeof_language_def sizeof_label_def)

lemma storage_setPin_sel:
  "storageRom (storage_setPin p s) = storageRom s"
  "has_pin (storageUpdate (storage_setPin p s)) = True"
  "pin (storageUpdate (storage_setPin p s)) = strlcpy (pin (storageUpdate s)) p sizeof_pin"
  "has_node (storageUpdate (storage_setPin p s)) = has_node (storageUpdate s)"
  "has_mnemonic (storageUpdate (storage_setPin p s)) = has_mnemonic (storageUpdate s)"
  "has_passphrase_protection (storageUpdate (storage_setPin p s)) =
     has_passphrase_protection (storageUpdate s)"
  "has_language (storageUpdate (storage_setPin p s)) = has_language (storageUpdate s)"
  "has_label (storageUpdate (storage_setPin p s)) = has_label (storageUpdate s)"
  "has_imported (storageUpdate (storage_setPin p s)) = has_imported (storageUpdate s)"
  "has_homescreen (storageUpdate (storage_setPin p s)) = has_homescreen (storageUpdate s)"
  "has_u2f_counter (storageUpdate (storage_setPin p s)) = has_u2f_counter (storageUpdate s)"
  "has_needs_backup (storageUpdate (storage_setPin p s)) = has_needs_backup (storageUpdate s)"
  "has_flags (storageUpdate (storage_setPin p s)) = has_flags (storageUpdate s)"
  by (simp_all add: storage_setPin_def)

theorem commit_carries_unset_fields_witness:
  "length (cstr (mnemonic (storageRom (storage_setPin [0x39] configured_device)))) <
     sizeof_mnemonic \<and>
   length (cstr (label (storageRom (storage_setPin [0x39] configured_device)))) < sizeof_label \<and>
   Storage_strings_fit (storageUpdate (storage_setPin [0x39] configured_device)) \<and>
   has_mnemonic (merged_record toy_crypto (storage_setPin [0x39] configured_device)) \<and>
   cstr (mnemonic (merged_record toy_crypto (storage_setPin [0x39] configured_device))) =
     [0x61, 0x62, 0x63] \<and>
   cstr (label (merged_record toy_crypto (storage_setPin [0x39] configured_device))) = [0x4C] \<and>
   u2f_counter (merged_record toy_crypto (storage_setPin [0x39] configured_device)) = 5 \<and>
   needs_backup (merged_record toy_crypto (storage_setPin [0x39] configured_device)) \<and>
   flags (merged_record toy_crypto (storage_setPin [0x39] configured_device)) = 1 \<and>
   \<not> has_pin_failed_attempts (merged_record toy_crypto (storage_setPin [0x39] configured_device)) \<and>
   Storage_strings_fit (merged_record toy_crypto (storage_setPin [0x39] configured_device))"
proof -
  have u: "Storage_strings_fit (storageUpdate (storage_setPin [0x39] configured_device))"
    by (rule setters_keep_fit) (simp add: configured_device_sel zero_Storage_fits)
  have p: "has_pin_failed_attempts (storageUpdate (storage_setPin [0x39] configured_device)) = False"
    by (simp add: storage_setPin_def configured_device_sel zero_Storage_sel)
  show ?thesis
    using commit_carries_unset_fields [of "storage_setPin [0x39] configured_device" toy_crypto] u p
    by (simp add: storage_setPin_sel configured_device_sel example_rom_sel zero_Storage_sel
          cstr_def sizeof_mnemonic_def sizeof_label_def)
qed

lemma storage_check_flash_errors_ok:
  "FLASH_SR s AND FLASH_SR_ERRORS = 0 \<Longrightarrow> storage_check_flash_errors s = Some s"
  by (simp add: storage_check_flash_errors_def)

lemma storage_applyFlags_sel:
  "storageRom (storage_applyFlags f s) = storageRom s"
  "FLASH_SR (storage_applyFlags f s) = FLASH_SR s"
  "has_flags (storageUpdate (storage_applyFlags f s)) =
     (if flags (storageRom s) OR f = flags (storageRom s) then has_flags (storageUpdate s) else True)"
  "flags (storageUpdate (storage_applyFlags f s)) =
     (if flags (storageRom s) OR f = flags (storageRom s) then flags (storageUpdate s)
      else flags (storageUpdate s) OR f)"
  by (simp_all add: storage_applyFlags_def)

subsection \<open>C2: applying flags\<close>

text \<open>
  C2 asks that \<^verbatim>\<open>storage_applyFlags(f)\<close> and a commit leave \<open>rom.flags OR f\<close> in flash. The
  staged value is \<open>storageUpdate.flags OR f\<close>, and the update record is all zero after
  every commit, so the committed value is \<open>f\<close> alone: on a device whose record has flag
  bit 0 set, applying flag bit 1 and committing leaves 2 in flash, not 3.
\<close>

theorem applyFlags_commit_loses_rom_flags:
  "flags (storageRom configured_device) = 1 \<and>
   map_option (\<lambda>s'. flags (storageRom s'))
     (storage_update ext (storage_applyFlags 2 configured_device)) = Some 2"
  by (simp add: storage_update_def storage_check_flash_errors_ok storage_commit_locked_sel
        storage_applyFlags_sel committed_policy_fields configured_device_sel example_rom_sel
        zero_Storage_sel)

subsection \<open>C10: the staged backup marker is visible\<close>

text \<open>
  C10. \<^verbatim>\<open>storage_needsBackup\<close> answers from the staged update record whenever that has
  \<open>has_needs_backup\<close> set, and from the record in flash only otherwise, so the value
  given to \<^verbatim>\<open>storage_setNeedsBackup\<close> is returned before any commit; the other policy
  getters do not depend on the update record.
\<close>

theorem needsBackup_reads_update_first:
  "(has_needs_backup (storageUpdate s) \<longrightarrow>
      storage_needsBackup s = needs_backup (storageUpdate s)) \<and>
   (\<not> has_needs_backup (storageUpdate s) \<longrightarrow>
      storage_needsBackup s = (has_needs_backup (storageRom s) \<and> needs_backup (storageRom s))) \<and>
   storage_needsBackup (storage_setNeedsBackup b s) = b \<and>
   storageRom (storage_setNeedsBackup b s) = storageRom s \<and>
   storage_getFlags (s\<lparr>storageUpdate := u\<rparr>) = storage_getFlags s \<and>
   storage_hasPassphraseProtection (s\<lparr>storageUpdate := u\<rparr>) = storage_hasPassphraseProtection s \<and>
   storage_hasPin (s\<lparr>storageUpdate := u\<rparr>) = storage_hasPin s \<and>
   storage_isImported (s\<lparr>storageUpdate := u\<rparr>) = storage_isImported s \<and>
   storage_getLabel (s\<lparr>storageUpdate := u\<rparr>) = storage_getLabel s \<and>
   storage_getLanguage (s\<lparr>storageUpdate := u\<rparr>) = storage_getLanguage s \<and>
   storage_getHomescreen (s\<lparr>storageUpdate := u\<rparr>) = storage_getHomescreen s \<and>
   storage_getFlags (storage_applyFlags f s) = storage_getFlags s"
  by (simp add: storage_needsBackup_def storage_setNeedsBackup_def storage_getFlags_def
        storage_hasPassphraseProtection_def storage_hasPin_def storage_isImported_def
        storage_getLabel_def storage_getLanguage_def storage_getHomescreen_def
        storage_applyFlags_sel)

theorem needsBackup_reads_update_first_witness:
  "has_needs_backup (storageUpdate (storage_setNeedsBackup False configured_device)) \<and>
   storage_needsBackup (storage_setNeedsBackup False configured_device) = False \<and>
   \<not> has_needs_backup (storageUpdate configured_device) \<and>
   storage_needsBackup configured_device = True \<and>
   storageRom (storage_setNeedsBackup False configured_device) = storageRom configured_device"
  using needsBackup_reads_update_first [of "storage_setNeedsBackup False configured_device" False]
    needsBackup_reads_update_first [of configured_device False]
  by (simp add: storage_setNeedsBackup_def configured_device_sel example_rom_sel zero_Storage_sel)

subsection \<open>C1: the key of the session state\<close>

text \<open>
  C1 asks that a call with a passphrase computes the HMAC with that passphrase as key.
  The call succeeds, but the key is the string in \<^verbatim>\<open>sessionPassphrase\<close>: with the
  passphrase "abc" supplied, the key is the empty string on a device with nothing
  cached (the buffer is all zero), and "p" on a device that has cached "p".
\<close>

theorem session_getState_key_is_session_buffer:
  "session_getState ext rnd (Some (replicate 32 0)) st (Some [0x61, 0x62, 0x63]) fresh_device =
     (True, replicate 32 0 @ hmac_sha256 ext [] (replicate 32 0 @ replicate 12 7)) \<and>
   session_getState ext rnd (Some (replicate 32 0)) st (Some [0x61, 0x62, 0x63]) cached_device =
     (True, replicate 32 0 @ hmac_sha256 ext [0x70] (replicate 32 0 @ replicate 12 7))"
  by (simp add: session_getState_def Let_def fresh_device_sel cached_device_def
        configured_device_sel cstr_def)

subsection \<open>C8: comparison with the stored secret\<close>

lemma diff_loop_zero:
  "fst (diff_loop stored cand i d) OR stored (snd (diff_loop stored cand i d)) = 0 \<longleftrightarrow>
     d = 0 \<and> (\<forall>j < length (cstr cand). stored (i + j) = cstr cand ! j) \<and>
     stored (i + length (cstr cand)) = 0"
proof (induction cand arbitrary: i d)
  case Nil
  then show ?case by (simp add: cstr_def or_eq_0_iff)
next
  case (Cons c cs)
  show ?case
  proof (cases "c = 0")
    case True
    then show ?thesis by (simp add: cstr_def or_eq_0_iff)
  next
    case False
    have all: "(\<forall>j < Suc (length (cstr cs)). stored (i + j) = (c # cstr cs) ! j) \<longleftrightarrow>
        stored i = c \<and> (\<forall>j < length (cstr cs). stored (Suc i + j) = cstr cs ! j)"
      by (auto simp: less_Suc_eq_0_disj)
    from False have c: "cstr (c # cs) = c # cstr cs" by (simp add: cstr_def)
    from False have step: "diff_loop stored (c # cs) i d =
        diff_loop stored cs (Suc i) (d OR (stored i - c))" by simp
    have "fst (diff_loop stored (c # cs) i d) OR stored (snd (diff_loop stored (c # cs) i d)) = 0
        \<longleftrightarrow> (d OR (stored i - c)) = 0 \<and>
            (\<forall>j < length (cstr cs). stored (Suc i + j) = cstr cs ! j) \<and>
            stored (Suc i + length (cstr cs)) = 0"
      unfolding step by (rule Cons.IH)
    also have "\<dots> \<longleftrightarrow> d = 0 \<and> stored i = c \<and>
            (\<forall>j < length (cstr cs). stored (Suc i + j) = cstr cs ! j) \<and>
            stored (Suc i + length (cstr cs)) = 0"
      by (simp add: or_eq_0_iff)
    also have "\<dots> \<longleftrightarrow> d = 0 \<and>
            (\<forall>j < length (cstr (c # cs)). stored (i + j) = cstr (c # cs) ! j) \<and>
            stored (i + length (cstr (c # cs))) = 0"
      unfolding c using all by simp
    finally show ?thesis .
  qed
qed

text \<open>A buffer that holds a NUL reads as the string \<open>c\<close> exactly when it starts with \<open>c\<close>
  and a NUL follows.\<close>

lemma cstr_decompose:
  assumes nul: "0 \<in> set buf"
  shows "\<exists>r. buf = cstr buf @ 0 # r"
proof -
  have dec: "buf = cstr buf @ dropWhile (\<lambda>x. x \<noteq> 0) buf"
    by (simp add: cstr_def)
  from nul have ne: "dropWhile (\<lambda>x. x \<noteq> 0) buf \<noteq> []"
    by auto
  then have "hd (dropWhile (\<lambda>x. x \<noteq> 0) buf) = 0"
    using hd_dropWhile [of "\<lambda>x. x \<noteq> 0" buf] by simp
  with ne obtain r where "dropWhile (\<lambda>x. x \<noteq> 0) buf = 0 # r"
    by (cases "dropWhile (\<lambda>x. x \<noteq> 0) buf") auto
  with dec show ?thesis by auto
qed

lemma cstr_eq_iff:
  assumes nul: "0 \<in> set buf" and c: "0 \<notin> set c"
  shows "cstr buf = c \<longleftrightarrow>
     (\<forall>j < length c. read_at buf beyond j = c ! j) \<and> read_at buf beyond (length c) = 0"
proof -
  from cstr_decompose [OF nul] obtain r where buf: "buf = cstr buf @ 0 # r" ..
  let ?z = "cstr buf"
  have rd: "\<And>j. j < length ?z \<Longrightarrow> read_at buf beyond j = ?z ! j"
    by (subst buf) (simp add: read_at_def nth_append)
  have rdz: "read_at buf beyond (length ?z) = 0"
    by (subst buf) (simp add: read_at_def nth_append)
  show ?thesis
  proof
    assume "cstr buf = c"
    with rd rdz show "(\<forall>j < length c. read_at buf beyond j = c ! j) \<and>
        read_at buf beyond (length c) = 0" by auto
  next
    assume h: "(\<forall>j < length c. read_at buf beyond j = c ! j) \<and>
        read_at buf beyond (length c) = 0"
    have "\<not> length ?z < length c"
    proof
      assume lt: "length ?z < length c"
      with h rdz have "c ! length ?z = 0" by simp
      with lt c show False by (metis nth_mem)
    qed
    moreover have "\<not> length c < length ?z"
    proof
      assume lt: "length c < length ?z"
      with h rd have "?z ! length c = 0" by simp
      with lt cstr_no_NUL [of buf] show False by (metis nth_mem)
    qed
    ultimately have len: "length ?z = length c" by simp
    show "cstr buf = c"
    proof (rule nth_equalityI)
      show "length (cstr buf) = length c" by (rule len)
    next
      fix j assume j: "j < length (cstr buf)"
      with rd h len show "cstr buf ! j = c ! j" by simp
    qed
  qed
qed

lemma contains_loop_correct:
  assumes nul: "0 \<in> set buf"
  shows "(case diff_loop (read_at buf beyond) cand 0 0 of
            (diff, i) \<Rightarrow> diff OR read_at buf beyond i = 0) \<longleftrightarrow> cstr buf = cstr cand"
proof -
  have "(case diff_loop (read_at buf beyond) cand 0 0 of
            (diff, i) \<Rightarrow> diff OR read_at buf beyond i = 0) \<longleftrightarrow>
        fst (diff_loop (read_at buf beyond) cand 0 0) OR
          read_at buf beyond (snd (diff_loop (read_at buf beyond) cand 0 0)) = 0"
    by (simp add: case_prod_beta)
  also have "\<dots> \<longleftrightarrow> (\<forall>j < length (cstr cand). read_at buf beyond j = cstr cand ! j) \<and>
        read_at buf beyond (length (cstr cand)) = 0"
    using diff_loop_zero [of "read_at buf beyond" cand 0 0] by simp
  also have "\<dots> \<longleftrightarrow> cstr buf = cstr cand"
    using cstr_eq_iff [OF nul cstr_no_NUL, of cand beyond] by simp
  finally show ?thesis .
qed

text \<open>
  C8. For a stored buffer that holds a NUL, \<^verbatim>\<open>storage_containsMnemonic\<close> and
  \<^verbatim>\<open>storage_containsPin\<close> return true exactly when the candidate string equals the stored
  string, whatever the candidate's length and whatever lies behind the buffer; so a
  proper prefix and an extension of the stored secret are both refused.
\<close>

theorem contains_iff_stored_string:
  "(0 \<in> set (mnemonic (storageRom s)) \<longrightarrow>
      storage_containsMnemonic beyond cand s = (cstr (mnemonic (storageRom s)) = cstr cand)) \<and>
   (0 \<in> set (pin (storageRom s)) \<longrightarrow>
      storage_containsPin beyond cand s = (cstr (pin (storageRom s)) = cstr cand))"
  unfolding storage_containsMnemonic_def storage_containsPin_def Let_def
  using contains_loop_correct [of "mnemonic (storageRom s)" beyond cand]
    contains_loop_correct [of "pin (storageRom s)" beyond cand]
  by blast

theorem contains_iff_stored_string_witness:
  "0 \<in> set (mnemonic (storageRom configured_device)) \<and>
   0 \<in> set (pin (storageRom configured_device)) \<and>
   storage_containsPin (\<lambda>i. 0x35) [0x31, 0x32, 0x33, 0x34] configured_device \<and>
   \<not> storage_containsPin (\<lambda>i. 0x35) [0x31, 0x32, 0x33] configured_device \<and>
   \<not> storage_containsPin (\<lambda>i. 0x35) [0x31, 0x32, 0x33, 0x34, 0x35] configured_device \<and>
   \<not> storage_containsPin (\<lambda>i. 0x35) [0x31, 0x32, 0x33, 0x34, 0x35, 0x35, 0x35, 0x35, 0x35, 0x35, 0x35, 0x35]
       configured_device \<and>
   storage_containsMnemonic (\<lambda>i. 0x35) [0x61, 0x62, 0x63, 0, 0x64] configured_device \<and>
   \<not> storage_containsMnemonic (\<lambda>i. 0x35) [0x61, 0x62] configured_device"
  using contains_iff_stored_string [of configured_device "\<lambda>i. 0x35" "[0x31, 0x32, 0x33, 0x34]"]
    contains_iff_stored_string [of configured_device "\<lambda>i. 0x35" "[0x31, 0x32, 0x33]"]
    contains_iff_stored_string [of configured_device "\<lambda>i. 0x35" "[0x31, 0x32, 0x33, 0x34, 0x35]"]
    contains_iff_stored_string [of configured_device "\<lambda>i. 0x35"
      "[0x31, 0x32, 0x33, 0x34, 0x35, 0x35, 0x35, 0x35, 0x35, 0x35, 0x35, 0x35]"]
    contains_iff_stored_string [of configured_device "\<lambda>i. 0x35" "[0x61, 0x62, 0x63, 0, 0x64]"]
    contains_iff_stored_string [of configured_device "\<lambda>i. 0x35" "[0x61, 0x62]"]
  by (simp add: configured_device_sel example_rom_sel cstr_def)

subsection \<open>C7: the session after a change of PIN or passphrase protection\<close>

lemma storage_setPassphraseProtection_sel:
  "storageRom (storage_setPassphraseProtection b s) = storageRom s"
  "has_passphrase_protection (storageUpdate (storage_setPassphraseProtection b s)) = True"
  "has_mnemonic (storageUpdate (storage_setPassphraseProtection b s)) =
     has_mnemonic (storageUpdate s)"
  "has_pin (storageUpdate (storage_setPassphraseProtection b s)) = has_pin (storageUpdate s)"
  "has_node (storageUpdate (storage_setPassphraseProtection b s)) = has_node (storageUpdate s)"
  "mnemonic (storageUpdate (storage_setPassphraseProtection b s)) = mnemonic (storageUpdate s)"
  "sessionSeedCached (storage_setPassphraseProtection b s) = False"
  "sessionPassphraseCached (storage_setPassphraseProtection b s) = False"
  "sessionSeed (storage_setPassphraseProtection b s) = sessionSeed s"
  "sessionPassphrase (storage_setPassphraseProtection b s) = sessionPassphrase s"
  "sessionPinCached (storage_setPassphraseProtection b s) = sessionPinCached s"
  "sessionSeedUsesPassphrase (storage_setPassphraseProtection b s) = sessionSeedUsesPassphrase s"
  by (simp_all add: storage_setPassphraseProtection_def)

lemma storage_setPin_session:
  "sessionSeedCached (storage_setPin p s) = sessionSeedCached s"
  "sessionPassphraseCached (storage_setPin p s) = sessionPassphraseCached s"
  "sessionSeed (storage_setPin p s) = sessionSeed s"
  "sessionPassphrase (storage_setPin p s) = sessionPassphrase s"
  "sessionPinCached (storage_setPin p s) = False"
  "sessionSeedUsesPassphrase (storage_setPin p s) = sessionSeedUsesPassphrase s"
  by (simp_all add: storage_setPin_def)

lemma storage_getSeed_uncached:
  assumes "\<not> sessionSeedCached t" and "storage_getSeed ext pp u t = Some (Some seed, t')"
  shows "seed = mnemonic_to_seed ext
           (cstr (mnemonic (storageRom (if u then snd (pp t) else t))))
           (if u then cstr (sessionPassphrase (snd (pp t))) else []) \<and>
         sessionSeed t' = seed \<and> sessionSeedCached t'"
  using assms
  by (auto simp: storage_getSeed_def Let_def split: if_splits prod.splits)

lemma storage_getSeed_cached:
  "sessionSeedCached t \<Longrightarrow> u = sessionSeedUsesPassphrase t \<Longrightarrow>
   storage_getSeed ext pp u t = Some (Some (sessionSeed t), t)"
  by (simp add: storage_getSeed_def)

text \<open>
  C7, as the code has it. After \<^verbatim>\<open>storage_setPassphraseProtection\<close> and the commit,
  \<open>sessionSeedCached\<close> and \<open>sessionPassphraseCached\<close> are false, and a seed that
  a later \<^verbatim>\<open>storage_getSeed\<close> returns is derived again from the stored mnemonic. After
  \<^verbatim>\<open>storage_setPin\<close> and the commit only \<open>sessionPinCached\<close> is cleared: the seed and
  passphrase caches stay as they were and \<^verbatim>\<open>storage_getSeed\<close> still returns the cached
  seed. Neither call writes to \<^verbatim>\<open>sessionSeed\<close> or \<^verbatim>\<open>sessionPassphrase\<close>: unless the update
  stages a mnemonic, both buffers keep their bytes.
\<close>

theorem session_after_setPassphraseProtection_setPin:
  "\<not> sessionSeedCached (storage_commit_locked ext True (storage_setPassphraseProtection b s)) \<and>
   \<not> sessionPassphraseCached (storage_commit_locked ext True (storage_setPassphraseProtection b s)) \<and>
   (storage_getSeed ext pp u
        (storage_commit_locked ext True (storage_setPassphraseProtection b s)) =
      Some (Some seed, t') \<longrightarrow>
    seed = mnemonic_to_seed ext
       (cstr (mnemonic (storageRom
          (if u then snd (pp (storage_commit_locked ext True (storage_setPassphraseProtection b s)))
           else storage_commit_locked ext True (storage_setPassphraseProtection b s)))))
       (if u then cstr (sessionPassphrase
             (snd (pp (storage_commit_locked ext True (storage_setPassphraseProtection b s)))))
        else [])) \<and>
   (\<not> has_mnemonic (storageUpdate s) \<longrightarrow>
      sessionSeed (storage_commit_locked ext True (storage_setPassphraseProtection b s)) =
        sessionSeed s \<and>
      sessionPassphrase (storage_commit_locked ext True (storage_setPassphraseProtection b s)) =
        sessionPassphrase s) \<and>
   \<not> sessionPinCached (storage_commit_locked ext True (storage_setPin p s)) \<and>
   (\<not> has_mnemonic (storageUpdate s) \<and> \<not> has_passphrase_protection (storageUpdate s) \<longrightarrow>
      sessionSeedCached (storage_commit_locked ext True (storage_setPin p s)) =
        sessionSeedCached s \<and>
      sessionPassphraseCached (storage_commit_locked ext True (storage_setPin p s)) =
        sessionPassphraseCached s \<and>
      sessionSeed (storage_commit_locked ext True (storage_setPin p s)) = sessionSeed s \<and>
      sessionPassphrase (storage_commit_locked ext True (storage_setPin p s)) =
        sessionPassphrase s \<and>
      (sessionSeedCached s \<longrightarrow>
         storage_getSeed ext pp (sessionSeedUsesPassphrase s)
             (storage_commit_locked ext True (storage_setPin p s)) =
           Some (Some (sessionSeed s), storage_commit_locked ext True (storage_setPin p s))))"
proof -
  let ?a = "storage_commit_locked ext True (storage_setPassphraseProtection b s)"
  let ?b = "storage_commit_locked ext True (storage_setPin p s)"
  have a1: "\<not> sessionSeedCached ?a" "\<not> sessionPassphraseCached ?a"
    by (simp_all add: storage_commit_locked_True_session storage_setPassphraseProtection_sel)
  have a2: "storage_getSeed ext pp u ?a = Some (Some seed, t') \<longrightarrow>
      seed = mnemonic_to_seed ext
       (cstr (mnemonic (storageRom (if u then snd (pp ?a) else ?a))))
       (if u then cstr (sessionPassphrase (snd (pp ?a))) else [])"
    using storage_getSeed_uncached [OF a1(1), of ext pp u seed t'] by blast
  have a3: "\<not> has_mnemonic (storageUpdate s) \<longrightarrow>
      sessionSeed ?a = sessionSeed s \<and> sessionPassphrase ?a = sessionPassphrase s"
    by (simp add: storage_commit_locked_True_session storage_setPassphraseProtection_sel)
  have b1: "\<not> sessionPinCached ?b"
    by (simp add: storage_commit_locked_True_session storage_setPin_sel)
  have b2: "\<not> has_mnemonic (storageUpdate s) \<and> \<not> has_passphrase_protection (storageUpdate s) \<longrightarrow>
      sessionSeedCached ?b = sessionSeedCached s \<and>
      sessionPassphraseCached ?b = sessionPassphraseCached s \<and>
      sessionSeed ?b = sessionSeed s \<and> sessionPassphrase ?b = sessionPassphrase s"
    by (simp add: storage_commit_locked_True_session storage_setPin_sel storage_setPin_session)
  have b3: "\<not> has_mnemonic (storageUpdate s) \<and> \<not> has_passphrase_protection (storageUpdate s) \<longrightarrow>
      sessionSeedCached s \<longrightarrow>
      storage_getSeed ext pp (sessionSeedUsesPassphrase s) ?b = Some (Some (sessionSeed s), ?b)"
  proof (intro impI)
    assume h: "\<not> has_mnemonic (storageUpdate s) \<and> \<not> has_passphrase_protection (storageUpdate s)"
      and c: "sessionSeedCached s"
    from h c b2 have "sessionSeedCached ?b" and "sessionSeed ?b = sessionSeed s" by simp_all
    moreover have "sessionSeedUsesPassphrase ?b = sessionSeedUsesPassphrase s"
      by (simp add: storage_commit_locked_sel storage_setPin_session)
    ultimately show "storage_getSeed ext pp (sessionSeedUsesPassphrase s) ?b =
        Some (Some (sessionSeed s), ?b)"
      using storage_getSeed_cached [of ?b "sessionSeedUsesPassphrase s" ext pp] by simp
  qed
  from a1 a2 a3 b1 b2 b3 show ?thesis by blast
qed

lemma cached_device_sel:
  "storageRom cached_device = example_rom"
  "storageUpdate cached_device = zero_Storage"
  "sessionSeedCached cached_device = True"
  "sessionSeedUsesPassphrase cached_device = False"
  "sessionSeed cached_device = replicate 64 0xAA"
  "sessionPinCached cached_device = True"
  "sessionPassphraseCached cached_device = True"
  "sessionPassphrase cached_device = [0x70] @ replicate 50 0"
  by (simp_all add: cached_device_def configured_device_sel)

text \<open>
  C7 as stated fails: on a device with a seed and a passphrase cached, after
  \<^verbatim>\<open>storage_setPin("9")\<close> and the commit the seed is still cached, still returned by
  \<^verbatim>\<open>storage_getSeed\<close>, and the buffers hold their old bytes; after
  \<^verbatim>\<open>storage_setPassphraseProtection(true)\<close> and the commit the buffers hold their old
  bytes as well.
\<close>

theorem setPin_keeps_session_secrets:
  "sessionSeedCached (storage_commit_locked toy_crypto True (storage_setPin [0x39] cached_device)) \<and>
   sessionPassphraseCached
     (storage_commit_locked toy_crypto True (storage_setPin [0x39] cached_device)) \<and>
   sessionSeed (storage_commit_locked toy_crypto True (storage_setPin [0x39] cached_device)) =
     replicate 64 0xAA \<and>
   sessionSeed (storage_commit_locked toy_crypto True (storage_setPin [0x39] cached_device)) \<noteq>
     replicate 64 0 \<and>
   sessionPassphrase (storage_commit_locked toy_crypto True (storage_setPin [0x39] cached_device)) =
     [0x70] @ replicate 50 0 \<and>
   map_option fst (storage_getSeed toy_crypto no_prompt False
     (storage_commit_locked toy_crypto True (storage_setPin [0x39] cached_device))) =
     Some (Some (replicate 64 0xAA)) \<and>
   sessionSeed (storage_commit_locked toy_crypto True
     (storage_setPassphraseProtection True cached_device)) = replicate 64 0xAA \<and>
   sessionPassphrase (storage_commit_locked toy_crypto True
     (storage_setPassphraseProtection True cached_device)) = [0x70] @ replicate 50 0"
  by (simp add: storage_commit_locked_True_session storage_commit_locked_sel storage_setPin_sel
        storage_setPin_session storage_setPassphraseProtection_sel cached_device_sel
        zero_Storage_sel storage_getSeed_def)

lemma toy_crypto_sel:
  "mnemonic_to_seed toy_crypto = (\<lambda>m p. take 64 (m @ p @ replicate 64 0))"
  "mnemonic_check toy_crypto = (\<lambda>m. True)"
  "hmac_sha256 toy_crypto = (\<lambda>k m. take 32 (k @ m @ replicate 32 0))"
  "U2F_KEY_PATH toy_crypto = 0x80553246"
  by (simp_all add: toy_crypto_def)

theorem session_after_setPassphraseProtection_setPin_witness:
  "\<not> has_mnemonic (storageUpdate cached_device) \<and>
   \<not> has_passphrase_protection (storageUpdate cached_device) \<and>
   sessionSeedCached cached_device \<and>
   \<not> sessionSeedCached
       (storage_commit_locked toy_crypto True (storage_setPassphraseProtection True cached_device)) \<and>
   storage_getSeed toy_crypto no_prompt False
       (storage_commit_locked toy_crypto True (storage_setPassphraseProtection True cached_device)) =
     Some (Some ([0x61, 0x62, 0x63] @ replicate 61 0),
           (storage_commit_locked toy_crypto True
              (storage_setPassphraseProtection True cached_device))
            \<lparr>sessionSeed := [0x61, 0x62, 0x63] @ replicate 61 0, sessionSeedCached := True,
              sessionSeedUsesPassphrase := False\<rparr>) \<and>
   [0x61, 0x62, 0x63] @ replicate 61 0 =
     mnemonic_to_seed toy_crypto
       (cstr (mnemonic (storageRom (storage_commit_locked toy_crypto True
          (storage_setPassphraseProtection True cached_device))))) [] \<and>
   storage_getSeed toy_crypto no_prompt False
       (storage_commit_locked toy_crypto True (storage_setPin [0x39] cached_device)) =
     Some (Some (replicate 64 0xAA),
           storage_commit_locked toy_crypto True (storage_setPin [0x39] cached_device))"
proof -
  let ?a = "storage_commit_locked toy_crypto True (storage_setPassphraseProtection True cached_device)"
  let ?seed = "[0x61, 0x62, 0x63] @ replicate 61 (0::u8)"
  have m: "cstr (mnemonic (storageRom ?a)) = [0x61, 0x62, 0x63]"
    by (simp add: committed_secret_fields storage_setPassphraseProtection_sel cached_device_sel
          zero_Storage_sel cstr_strlcpy sizeof_mnemonic_def example_rom_sel)
       (simp add: cstr_def)
  have g: "storage_getSeed toy_crypto no_prompt False ?a =
       Some (Some ?seed, ?a\<lparr>sessionSeed := ?seed, sessionSeedCached := True,
                              sessionSeedUsesPassphrase := False\<rparr>)"
    by (simp add: storage_getSeed_def no_prompt_def m toy_crypto_sel committed_secret_fields(3) Let_def
          storage_commit_locked_True_session storage_commit_locked_sel
          storage_setPassphraseProtection_sel cached_device_sel zero_Storage_sel example_rom_sel)
  show ?thesis
    using session_after_setPassphraseProtection_setPin
      [of toy_crypto True cached_device no_prompt False ?seed
          "?a\<lparr>sessionSeed := ?seed, sessionSeedCached := True, sessionSeedUsesPassphrase := False\<rparr>"
          "[0x39]"]
      g
    by (simp add: cached_device_sel zero_Storage_sel)
qed

subsection \<open>Flash words and the scan for the current word\<close>



lemma first_nonzero_word_here:
  "a < FLASH_META_END \<Longrightarrow> f a \<noteq> 0 \<Longrightarrow> first_nonzero_word f a = Some a"
  by (subst first_nonzero_word.simps) simp

lemma first_nonzero_word_skip:
  "a < FLASH_META_END \<Longrightarrow> f a = 0 \<Longrightarrow> first_nonzero_word f a = first_nonzero_word f (a + 4)"
  by (subst first_nonzero_word.simps) simp

lemma first_nonzero_word_bounds:
  "first_nonzero_word f b = Some a \<Longrightarrow> b \<le> a \<and> a < FLASH_META_END \<and> f a \<noteq> 0"
proof (induction f b rule: first_nonzero_word.induct)
  case (1 f b)
  from "1.prems" have b: "b < FLASH_META_END"
    by (subst (asm) first_nonzero_word.simps) (simp split: if_splits)
  show ?case
  proof (cases "f b = 0")
    case True
    with b "1.prems" have "first_nonzero_word f (b + 4) = Some a"
      by (simp add: first_nonzero_word_skip)
    with "1.IH" b True show ?thesis by simp
  next
    case False
    with b "1.prems" show ?thesis by (simp add: first_nonzero_word_here)
  qed
qed

text \<open>The scan reads the words from its start to its result only.\<close>

lemma first_nonzero_word_cong:
  "first_nonzero_word f b = Some a \<Longrightarrow> (\<And>c. b \<le> c \<Longrightarrow> c \<le> a \<Longrightarrow> g c = f c) \<Longrightarrow>
   first_nonzero_word g b = Some a"
proof (induction f b rule: first_nonzero_word.induct)
  case (1 f b)
  from "1.prems"(1) have b: "b < FLASH_META_END"
    by (subst (asm) first_nonzero_word.simps) (simp split: if_splits)
  from first_nonzero_word_bounds [OF "1.prems"(1)] have ba: "b \<le> a" by simp
  then have gb: "g b = f b" using "1.prems"(2) by simp
  show ?case
  proof (cases "f b = 0")
    case True
    with b "1.prems"(1) have "first_nonzero_word f (b + 4) = Some a"
      by (simp add: first_nonzero_word_skip)
    moreover have "\<And>c. b + 4 \<le> c \<Longrightarrow> c \<le> a \<Longrightarrow> g c = f c"
      using "1.prems"(2) by simp
    ultimately have "first_nonzero_word g (b + 4) = Some a"
      using "1.IH" b True by simp
    with b gb True show ?thesis by (simp add: first_nonzero_word_skip)
  next
    case False
    with b "1.prems"(1) have "a = b" by (simp add: first_nonzero_word_here)
    with b gb False show ?thesis by (simp add: first_nonzero_word_here)
  qed
qed



subsection \<open>Recycling the last sector\<close>

lemma erased_word_and: "(0xffffffff :: u32) AND w = w"
proof -
  have "(0xffffffff :: u32) = - 1" by simp
  then show ?thesis by (simp only: and.left_neutral)
qed

lemma flash_write32_sel:
  "flash (flash_write32 a v s) a = flash s a AND v"
  "b \<noteq> a \<Longrightarrow> flash (flash_write32 a v s) b = flash s b"
  "FLASH_SR (flash_write32 a v s) = FLASH_SR s"
  "erases (flash_write32 a v s) = erases s"
  "storageRom (flash_write32 a v s) = storageRom s"
  "storageUpdate (flash_write32 a v s) = storageUpdate s"
  "storage_u2f_offset (flash_write32 a v s) = storage_u2f_offset s"
  "flash_magic (flash_write32 a v s) = flash_magic s"
  by (simp_all add: flash_write32_def)

lemma svc_flash_erase_sector_last_sel:
  "FLASH_STORAGE_PINAREA \<le> a \<Longrightarrow> a < FLASH_META_END \<Longrightarrow>
     flash (svc_flash_erase_sector_last s) a = 0xffffffff"
  "FLASH_SR (svc_flash_erase_sector_last s) = FLASH_SR s"
  "erases (svc_flash_erase_sector_last s) = Suc (erases s)"
  "storageRom (svc_flash_erase_sector_last s) = storageRom s"
  "storageUpdate (svc_flash_erase_sector_last s) = storageUpdate s"
  "storage_u2f_offset (svc_flash_erase_sector_last s) = storage_u2f_offset s"
  "flash_magic (svc_flash_erase_sector_last s) = flash_magic s"
  by (simp_all add: svc_flash_erase_sector_last_def)

lemma area_bounds:
  "FLASH_STORAGE_PINAREA < FLASH_META_END"
  "FLASH_STORAGE_PINAREA + FLASH_STORAGE_PINAREA_LEN = FLASH_STORAGE_U2FAREA"
  "FLASH_STORAGE_U2FAREA + FLASH_STORAGE_U2FAREA_LEN < FLASH_META_END"
  "FLASH_STORAGE_PINAREA < FLASH_STORAGE_U2FAREA"
  by (simp_all add: FLASH_STORAGE_PINAREA_def FLASH_META_END_def FLASH_STORAGE_U2FAREA_def
        FLASH_STORAGE_PINAREA_LEN_def FLASH_STORAGE_U2FAREA_LEN_def)

text \<open>A recycle always returns: both read-backs succeed on flash that programs by AND.\<close>

lemma storage_area_recycle_result:
  "\<exists>s'. storage_area_recycle ext w s = Some s' \<and>
     flash s' FLASH_STORAGE_PINAREA = w \<and>
     (\<forall>a. FLASH_STORAGE_PINAREA < a \<and> a < FLASH_META_END \<longrightarrow> flash s' a = 0xffffffff) \<and>
     erases s' = Suc (erases s) \<and>
     storage_u2f_offset s' = 0 \<and>
     FLASH_SR s' = FLASH_SR s \<and>
     storageUpdate s' = zero_Storage \<and>
     flash_magic s' = storage_magic \<and>
     has_u2f_counter (storageRom s') \<and>
     u2f_counter (storageRom s') = u2f_counter (storageUpdate s) + storage_u2f_offset s"
proof -
  let ?s3 = "flash_write32 FLASH_STORAGE_PINAREA w
               (svc_flash_erase_sector_last (s\<lparr>flash_magic := flash_magic s AND 0\<rparr>))"
  let ?s4 = "?s3\<lparr>storageUpdate := (storageUpdate ?s3)\<lparr>
                 has_u2f_counter := True,
                 u2f_counter := u2f_counter (storageUpdate ?s3) + storage_u2f_offset ?s3\<rparr>,
               storage_u2f_offset := 0\<rparr>"
  have rb: "flash ?s3 FLASH_STORAGE_PINAREA = w"
    using area_bounds(1)
    by (simp add: flash_write32_sel svc_flash_erase_sector_last_sel erased_word_and)
  have ers: "\<And>a. FLASH_STORAGE_PINAREA < a \<Longrightarrow> a < FLASH_META_END \<Longrightarrow> flash ?s3 a = 0xffffffff"
    by (simp add: flash_write32_sel svc_flash_erase_sector_last_sel)
  have eq: "storage_area_recycle ext w s = Some (storage_commit_locked ext True ?s4)"
    unfolding storage_area_recycle_def Let_def using rb by simp
  show ?thesis
    unfolding eq using rb ers
    by (intro exI [of _ "storage_commit_locked ext True ?s4"])
       (simp add: storage_commit_locked_sel committed_policy_fields flash_write32_sel
          svc_flash_erase_sector_last_sel)
qed

subsection \<open>C5: the PIN wait\<close>












subsection \<open>The U2F counter, call by call\<close>

lemma u2f_offset_succ:
  fixes off :: u32
  assumes "unat off < 2048"
  shows "unat (off + 1) = Suc (unat off)"
proof -
  have "unat off + unat (1 :: u32) < 2 ^ LENGTH(32)" using assms by simp
  then have "unat (off + 1) = unat off + unat (1 :: u32)" by (simp only: unat_add_lem)
  then show ?thesis by simp
qed

lemma nextU2FCounter_step:
  assumes ok: "FLASH_SR s AND FLASH_SR_ERRORS = 0"
    and room: "Suc (unat (storage_u2f_offset s)) < 8 * FLASH_STORAGE_U2FAREA_LEN"
  shows "\<exists>s'. storage_nextU2FCounter ext s =
               Some (u2f_counter (storageRom s) + (storage_u2f_offset s + 1), s') \<and>
           storageRom s' = storageRom s \<and> storageUpdate s' = storageUpdate s \<and>
           erases s' = erases s \<and> FLASH_SR s' = FLASH_SR s \<and>
           storage_u2f_offset s' = storage_u2f_offset s + 1 \<and>
           (\<forall>a. a < FLASH_STORAGE_U2FAREA \<longrightarrow> flash s' a = flash s a)"
proof -
  let ?a = "FLASH_STORAGE_U2FAREA + 4 * (unat (storage_u2f_offset s) div 32)"
  let ?v = "push_bit (unat (storage_u2f_offset s AND 31)) (0xfffffffe :: u32)"
  let ?s2 = "(flash_write32 ?a ?v s)\<lparr>storage_u2f_offset := storage_u2f_offset s + 1\<rparr>"
  from room have "unat (storage_u2f_offset s) < 2048"
    by (simp add: FLASH_STORAGE_U2FAREA_LEN_def)
  then have "unat (storage_u2f_offset s + 1) = Suc (unat (storage_u2f_offset s))"
    by (rule u2f_offset_succ)
  with room have no: "\<not> 8 * FLASH_STORAGE_U2FAREA_LEN \<le> unat (storage_u2f_offset s + 1)"
    by simp
  have chk: "storage_check_flash_errors ?s2 = Some ?s2"
    using ok by (simp add: storage_check_flash_errors_def flash_write32_sel)
  have "storage_nextU2FCounter ext s =
          Some (u2f_counter (storageRom s) + (storage_u2f_offset s + 1), ?s2)"
    unfolding storage_nextU2FCounter_def Let_def
    using no chk by (simp add: flash_write32_sel)
  moreover have "\<forall>a. a < FLASH_STORAGE_U2FAREA \<longrightarrow> flash ?s2 a = flash s a"
    by (simp add: flash_write32_def)
  ultimately show ?thesis
    by (intro exI [of _ ?s2]) (simp add: flash_write32_sel)
qed

lemma nextU2FCounter_recycle:
  assumes ok: "FLASH_SR s AND FLASH_SR_ERRORS = 0"
    and full: "Suc (unat (storage_u2f_offset s)) = 8 * FLASH_STORAGE_U2FAREA_LEN"
    and pin: "storage_getPinFailsOffset s = Some p" and p: "p < FLASH_STORAGE_U2FAREA"
  shows "\<exists>s'. storage_nextU2FCounter ext s =
               Some (u2f_counter (storageUpdate s) + of_nat (8 * FLASH_STORAGE_U2FAREA_LEN), s') \<and>
           u2f_counter (storageRom s') =
             u2f_counter (storageUpdate s) + of_nat (8 * FLASH_STORAGE_U2FAREA_LEN) \<and>
           storageUpdate s' = zero_Storage \<and>
           erases s' = Suc (erases s) \<and> FLASH_SR s' = FLASH_SR s \<and>
           storage_u2f_offset s' = 0 \<and>
           storage_getPinFailsOffset s' = Some FLASH_STORAGE_PINAREA"
proof -
  let ?a = "FLASH_STORAGE_U2FAREA + 4 * (unat (storage_u2f_offset s) div 32)"
  let ?v = "push_bit (unat (storage_u2f_offset s AND 31)) (0xfffffffe :: u32)"
  let ?s2 = "(flash_write32 ?a ?v s)\<lparr>storage_u2f_offset := storage_u2f_offset s + 1\<rparr>"
  from full have lt: "unat (storage_u2f_offset s) < 2048"
    by (simp add: FLASH_STORAGE_U2FAREA_LEN_def)
  then have suc: "unat (storage_u2f_offset s + 1) = Suc (unat (storage_u2f_offset s))"
    by (rule u2f_offset_succ)
  with full have yes: "8 * FLASH_STORAGE_U2FAREA_LEN \<le> unat (storage_u2f_offset s + 1)"
    by simp
  have "storage_u2f_offset s + 1 = of_nat (unat (storage_u2f_offset s + 1))"
    by simp
  with suc full have off: "storage_u2f_offset s + 1 = of_nat (8 * FLASH_STORAGE_U2FAREA_LEN)"
    by (simp only:)
  from pin have scan: "first_nonzero_word (flash s) FLASH_STORAGE_PINAREA = Some p"
    by (simp add: storage_getPinFailsOffset_def)
  have "first_nonzero_word (flash ?s2) FLASH_STORAGE_PINAREA = Some p"
    using scan
  proof (rule first_nonzero_word_cong)
    fix c assume "c \<le> p"
    with p have "c \<noteq> ?a" by simp
    then show "flash ?s2 c = flash s c" by (simp add: flash_write32_def)
  qed
  then have pin2: "storage_getPinFailsOffset ?s2 = Some p"
    by (simp add: storage_getPinFailsOffset_def)
  from first_nonzero_word_bounds [OF scan] have nz: "flash s p \<noteq> 0" by simp
  from p have "p \<noteq> ?a" by simp
  then have w: "flash ?s2 p = flash s p" by (simp add: flash_write32_def)
  from storage_area_recycle_result [of ext "flash s p" ?s2]
  obtain s' where s': "storage_area_recycle ext (flash s p) ?s2 = Some s'"
    "flash s' FLASH_STORAGE_PINAREA = flash s p"
    "erases s' = Suc (erases ?s2)" "storage_u2f_offset s' = 0" "FLASH_SR s' = FLASH_SR ?s2"
    "storageUpdate s' = zero_Storage"
    "u2f_counter (storageRom s') = u2f_counter (storageUpdate ?s2) + storage_u2f_offset ?s2"
    by blast
  have chk: "storage_check_flash_errors s' = Some s'"
    using ok s'(5) by (simp add: storage_check_flash_errors_def flash_write32_sel)
  have cnt: "u2f_counter (storageRom s') =
      u2f_counter (storageUpdate s) + of_nat (8 * FLASH_STORAGE_U2FAREA_LEN)"
    using s'(7) off by (simp add: flash_write32_sel)
  have "storage_nextU2FCounter ext s = Some (u2f_counter (storageRom s') + storage_u2f_offset s', s')"
    unfolding storage_nextU2FCounter_def Let_def
    using yes pin2 w s'(1) chk by (simp add: flash_write32_sel)
  moreover have "storage_getPinFailsOffset s' = Some FLASH_STORAGE_PINAREA"
    unfolding storage_getPinFailsOffset_def
    using s'(2) nz area_bounds(1) by (intro first_nonzero_word_here) simp_all
  ultimately show ?thesis
    using s' cnt by (intro exI [of _ s']) (simp add: flash_write32_sel)
qed

lemma u2f_calls_append:
  "u2f_calls ext (m + n) s =
     (case u2f_calls ext m s of
        None \<Rightarrow> None
      | Some (vs, s1) \<Rightarrow>
          (case u2f_calls ext n s1 of
             None \<Rightarrow> None
           | Some (ws, s2) \<Rightarrow> Some (vs @ ws, s2)))"
  by (induction m arbitrary: s) (auto split: option.splits)

text \<open>Calls that do not fill the area count up from the stored counter plus the offset.\<close>

lemma u2f_calls_run:
  "FLASH_SR s AND FLASH_SR_ERRORS = 0 \<Longrightarrow>
   unat (storage_u2f_offset s) + n < 8 * FLASH_STORAGE_U2FAREA_LEN \<Longrightarrow>
   \<exists>s'. u2f_calls ext n s =
           Some (map (\<lambda>i. u2f_counter (storageRom s) + storage_u2f_offset s + of_nat (Suc i)) [0..<n],
                 s') \<and>
        storageRom s' = storageRom s \<and> storageUpdate s' = storageUpdate s \<and>
        erases s' = erases s \<and> FLASH_SR s' = FLASH_SR s \<and>
        storage_u2f_offset s' = storage_u2f_offset s + of_nat n \<and>
        (\<forall>a. a < FLASH_STORAGE_U2FAREA \<longrightarrow> flash s' a = flash s a)"
proof (induction n arbitrary: s)
  case 0
  then show ?case by simp
next
  case (Suc n)
  from Suc.prems(2) have room: "Suc (unat (storage_u2f_offset s)) < 8 * FLASH_STORAGE_U2FAREA_LEN"
    by simp
  from nextU2FCounter_step [OF Suc.prems(1) room, of ext]
  obtain s1 where s1:
    "storage_nextU2FCounter ext s =
       Some (u2f_counter (storageRom s) + (storage_u2f_offset s + 1), s1)"
    "storageRom s1 = storageRom s" "storageUpdate s1 = storageUpdate s"
    "erases s1 = erases s" "FLASH_SR s1 = FLASH_SR s"
    "storage_u2f_offset s1 = storage_u2f_offset s + 1"
    "\<forall>a. a < FLASH_STORAGE_U2FAREA \<longrightarrow> flash s1 a = flash s a" by blast
  from room have "unat (storage_u2f_offset s) < 2048"
    by (simp add: FLASH_STORAGE_U2FAREA_LEN_def)
  then have "unat (storage_u2f_offset s1) = Suc (unat (storage_u2f_offset s))"
    unfolding s1(6) by (rule u2f_offset_succ)
  with Suc.prems(2) have room1: "unat (storage_u2f_offset s1) + n < 8 * FLASH_STORAGE_U2FAREA_LEN"
    by simp
  from Suc.prems(1) s1(5) have ok1: "FLASH_SR s1 AND FLASH_SR_ERRORS = 0" by simp
  from Suc.IH [OF ok1 room1]
  obtain s' where s':
    "u2f_calls ext n s1 =
       Some (map (\<lambda>i. u2f_counter (storageRom s1) + storage_u2f_offset s1 + of_nat (Suc i)) [0..<n],
             s')"
    "storageRom s' = storageRom s1" "storageUpdate s' = storageUpdate s1"
    "erases s' = erases s1" "FLASH_SR s' = FLASH_SR s1"
    "storage_u2f_offset s' = storage_u2f_offset s1 + of_nat n"
    "\<forall>a. a < FLASH_STORAGE_U2FAREA \<longrightarrow> flash s' a = flash s1 a" by blast
  have vals: "map (\<lambda>i. u2f_counter (storageRom s) + storage_u2f_offset s + of_nat (Suc i)) [0..<Suc n] =
      (u2f_counter (storageRom s) + (storage_u2f_offset s + 1)) #
      map (\<lambda>i. u2f_counter (storageRom s1) + storage_u2f_offset s1 + of_nat (Suc i)) [0..<n]"
    unfolding s1(2) s1(6)
    by (simp only: upt_conv_Cons [of 0 "Suc n"] map_Suc_upt [symmetric] list.map)
       (simp add: algebra_simps)
  show ?case
    unfolding vals using s1 s'
    by (intro exI [of _ s']) (simp add: algebra_simps)
qed

text \<open>
  A full round from offset 0 with no counter staged: 2047 ordinary calls and the call
  that recycles. The recycle stores the staged counter plus the offset, so the stored
  counter is 2048 after every round, whatever it was before.
\<close>

lemma u2f_round:
  assumes ok: "FLASH_SR s AND FLASH_SR_ERRORS = 0"
    and off0: "storage_u2f_offset s = 0"
    and staged: "u2f_counter (storageUpdate s) = 0"
    and pin: "storage_getPinFailsOffset s = Some p" and p: "p < FLASH_STORAGE_U2FAREA"
  shows "\<exists>s'. u2f_calls ext 2048 s =
             Some (map (\<lambda>i. u2f_counter (storageRom s) + of_nat (Suc i)) [0..<2047] @ [2048], s') \<and>
           FLASH_SR s' = FLASH_SR s \<and> storage_u2f_offset s' = 0 \<and>
           storageUpdate s' = zero_Storage \<and> u2f_counter (storageRom s') = 2048 \<and>
           storage_getPinFailsOffset s' = Some FLASH_STORAGE_PINAREA \<and>
           erases s' = Suc (erases s)"
proof -
  have room: "unat (storage_u2f_offset s) + 2047 < 8 * FLASH_STORAGE_U2FAREA_LEN"
    by (simp add: off0 FLASH_STORAGE_U2FAREA_LEN_def)
  from u2f_calls_run [OF ok room, of ext]
  obtain s1 where s1:
    "u2f_calls ext 2047 s =
       Some (map (\<lambda>i. u2f_counter (storageRom s) + storage_u2f_offset s + of_nat (Suc i)) [0..<2047],
             s1)"
    "storageUpdate s1 = storageUpdate s" "erases s1 = erases s" "FLASH_SR s1 = FLASH_SR s"
    "storage_u2f_offset s1 = storage_u2f_offset s + of_nat 2047"
    "\<forall>a. a < FLASH_STORAGE_U2FAREA \<longrightarrow> flash s1 a = flash s a" by blast
  from pin have scan: "first_nonzero_word (flash s) FLASH_STORAGE_PINAREA = Some p"
    by (simp add: storage_getPinFailsOffset_def)
  have "first_nonzero_word (flash s1) FLASH_STORAGE_PINAREA = Some p"
    using scan
  proof (rule first_nonzero_word_cong)
    fix c assume "c \<le> p"
    with p s1(6) show "flash s1 c = flash s c" by simp
  qed
  then have pin1: "storage_getPinFailsOffset s1 = Some p"
    by (simp add: storage_getPinFailsOffset_def)
  from ok s1(4) have ok1: "FLASH_SR s1 AND FLASH_SR_ERRORS = 0" by simp
  have full: "Suc (unat (storage_u2f_offset s1)) = 8 * FLASH_STORAGE_U2FAREA_LEN"
    by (simp add: s1(5) off0 FLASH_STORAGE_U2FAREA_LEN_def)
  from nextU2FCounter_recycle [OF ok1 full pin1 p, of ext]
  obtain s' where s':
    "storage_nextU2FCounter ext s1 =
       Some (u2f_counter (storageUpdate s1) + of_nat (8 * FLASH_STORAGE_U2FAREA_LEN), s')"
    "u2f_counter (storageRom s') =
       u2f_counter (storageUpdate s1) + of_nat (8 * FLASH_STORAGE_U2FAREA_LEN)"
    "storageUpdate s' = zero_Storage" "erases s' = Suc (erases s1)" "FLASH_SR s' = FLASH_SR s1"
    "storage_u2f_offset s' = 0" "storage_getPinFailsOffset s' = Some FLASH_STORAGE_PINAREA"
    by blast
  have last: "u2f_calls ext 1 s1 = Some ([2048], s')"
    using s'(1) by (simp add: s1(2) staged FLASH_STORAGE_U2FAREA_LEN_def)
  have "u2f_calls ext 2048 s = u2f_calls ext (2047 + 1) s" by simp
  also have "\<dots> =
      Some (map (\<lambda>i. u2f_counter (storageRom s) + of_nat (Suc i)) [0..<2047] @ [2048], s')"
    unfolding u2f_calls_append using s1(1) last by (simp add: off0)
  finally show ?thesis
    using s' s1 by (simp add: staged FLASH_STORAGE_U2FAREA_LEN_def)
qed

subsection \<open>C3: the U2F counter across recycles\<close>

lemma fresh_device_pin: "storage_getPinFailsOffset fresh_device = Some FLASH_STORAGE_PINAREA"
  unfolding storage_getPinFailsOffset_def
  using area_bounds(1) by (intro first_nonzero_word_here) (simp_all add: fresh_device_sel)

lemma fresh_device_ok: "FLASH_SR fresh_device AND FLASH_SR_ERRORS = 0"
  by (simp add: fresh_device_sel)

text \<open>
  C3 asks for a strictly increasing sequence across recycles. On a fresh device the
  2048th call recycles and returns 2048, the 4095th call returns 4095, and the 4096th
  call, the second recycle, returns 2048 again: the recycle adds the offset to the
  staged counter, which is 0, not to the stored one.
\<close>

theorem u2f_counter_repeats_after_second_recycle:
  "map_option ((\<lambda>vs. (vs ! 2047, vs ! 4094, vs ! 4095)) \<circ> fst)
     (u2f_calls ext 4096 fresh_device) = Some (2048, 4095, 2048)"
proof -
  from u2f_round [OF fresh_device_ok _ _ fresh_device_pin area_bounds(4), of ext]
  obtain s1 where s1:
    "u2f_calls ext 2048 fresh_device =
       Some (map (\<lambda>i. u2f_counter (storageRom fresh_device) + of_nat (Suc i)) [0..<2047] @ [2048],
             s1)"
    "FLASH_SR s1 = FLASH_SR fresh_device" "storage_u2f_offset s1 = 0"
    "storageUpdate s1 = zero_Storage" "u2f_counter (storageRom s1) = 2048"
    "storage_getPinFailsOffset s1 = Some FLASH_STORAGE_PINAREA"
    by (auto simp: fresh_device_sel zero_Storage_sel)
  from s1(2) fresh_device_ok have ok1: "FLASH_SR s1 AND FLASH_SR_ERRORS = 0" by simp
  from s1(4) have st1: "u2f_counter (storageUpdate s1) = 0" by (simp add: zero_Storage_sel)
  from u2f_round [OF ok1 s1(3) st1 s1(6) area_bounds(4), of ext]
  obtain s2 where s2:
    "u2f_calls ext 2048 s1 =
       Some (map (\<lambda>i. u2f_counter (storageRom s1) + of_nat (Suc i)) [0..<2047] @ [2048], s2)"
    by blast
  have "u2f_calls ext 4096 fresh_device = u2f_calls ext (2048 + 2048) fresh_device" by simp
  also have "\<dots> =
      Some ((map (\<lambda>i. u2f_counter (storageRom fresh_device) + of_nat (Suc i)) [0..<2047] @ [2048]) @
            (map (\<lambda>i. 2048 + of_nat (Suc i)) [0..<2047] @ [2048]), s2)"
    unfolding u2f_calls_append using s1(1) s2 by (simp add: s1(5))
  finally show ?thesis
    by (simp add: nth_append)
qed

subsection \<open>C4: the first recycle\<close>

lemma fresh_counters_pin:
  assumes "fresh_counters s"
  shows "storage_getPinFailsOffset s = Some FLASH_STORAGE_PINAREA"
  unfolding storage_getPinFailsOffset_def
  using assms area_bounds(1)
  by (intro first_nonzero_word_here) (simp_all add: fresh_counters_def)

text \<open>The first 2049 calls on a device with fresh counters.\<close>

lemma u2f_first_calls:
  assumes fresh: "fresh_counters s"
  shows "\<exists>s1 s2 s3.
           u2f_calls ext 2047 s = Some (map (\<lambda>i. of_nat (Suc i)) [0..<2047], s1) \<and>
           erases s1 = erases s \<and>
           storage_nextU2FCounter ext s1 = Some (2048, s2) \<and>
           erases s2 = Suc (erases s) \<and> u2f_counter (storageRom s2) = 2048 \<and>
           storage_u2f_offset s2 = 0 \<and>
           storage_nextU2FCounter ext s2 = Some (2049, s3) \<and>
           erases s3 = Suc (erases s) \<and> u2f_counter (storageRom s3) = 2048"
proof -
  from fresh have ok: "FLASH_SR s AND FLASH_SR_ERRORS = 0" and off0: "storage_u2f_offset s = 0"
    and rom0: "u2f_counter (storageRom s) = 0" and upd: "storageUpdate s = zero_Storage"
    by (simp_all add: fresh_counters_def)
  have room: "unat (storage_u2f_offset s) + 2047 < 8 * FLASH_STORAGE_U2FAREA_LEN"
    by (simp add: off0 FLASH_STORAGE_U2FAREA_LEN_def)
  from u2f_calls_run [OF ok room, of ext]
  obtain s1 where s1:
    "u2f_calls ext 2047 s =
       Some (map (\<lambda>i. u2f_counter (storageRom s) + storage_u2f_offset s + of_nat (Suc i)) [0..<2047],
             s1)"
    "storageUpdate s1 = storageUpdate s" "erases s1 = erases s" "FLASH_SR s1 = FLASH_SR s"
    "storage_u2f_offset s1 = storage_u2f_offset s + of_nat 2047"
    "\<forall>a. a < FLASH_STORAGE_U2FAREA \<longrightarrow> flash s1 a = flash s a" by blast
  from fresh_counters_pin [OF fresh]
  have scan: "first_nonzero_word (flash s) FLASH_STORAGE_PINAREA = Some FLASH_STORAGE_PINAREA"
    by (simp add: storage_getPinFailsOffset_def)
  have "first_nonzero_word (flash s1) FLASH_STORAGE_PINAREA = Some FLASH_STORAGE_PINAREA"
    using scan
  proof (rule first_nonzero_word_cong)
    fix c assume "c \<le> FLASH_STORAGE_PINAREA"
    with area_bounds(4) s1(6) show "flash s1 c = flash s c" by simp
  qed
  then have pin1: "storage_getPinFailsOffset s1 = Some FLASH_STORAGE_PINAREA"
    by (simp add: storage_getPinFailsOffset_def)
  from ok s1(4) have ok1: "FLASH_SR s1 AND FLASH_SR_ERRORS = 0" by simp
  have full: "Suc (unat (storage_u2f_offset s1)) = 8 * FLASH_STORAGE_U2FAREA_LEN"
    by (simp add: s1(5) off0 FLASH_STORAGE_U2FAREA_LEN_def)
  from nextU2FCounter_recycle [OF ok1 full pin1 area_bounds(4), of ext]
  obtain s2 where s2:
    "storage_nextU2FCounter ext s1 =
       Some (u2f_counter (storageUpdate s1) + of_nat (8 * FLASH_STORAGE_U2FAREA_LEN), s2)"
    "u2f_counter (storageRom s2) =
       u2f_counter (storageUpdate s1) + of_nat (8 * FLASH_STORAGE_U2FAREA_LEN)"
    "erases s2 = Suc (erases s1)" "FLASH_SR s2 = FLASH_SR s1"
    "storage_u2f_offset s2 = 0"
    by blast
  from ok1 s2(4) have ok2: "FLASH_SR s2 AND FLASH_SR_ERRORS = 0" by simp
  have room2: "Suc (unat (storage_u2f_offset s2)) < 8 * FLASH_STORAGE_U2FAREA_LEN"
    by (simp add: s2(5) FLASH_STORAGE_U2FAREA_LEN_def)
  from nextU2FCounter_step [OF ok2 room2, of ext]
  obtain s3 where s3:
    "storage_nextU2FCounter ext s2 =
       Some (u2f_counter (storageRom s2) + (storage_u2f_offset s2 + 1), s3)"
    "storageRom s3 = storageRom s2" "erases s3 = erases s2" by blast
  have c2: "u2f_counter (storageRom s2) = 2048"
    by (simp add: s2(2) s1(2) upd zero_Storage_sel FLASH_STORAGE_U2FAREA_LEN_def)
  show ?thesis
    using s1(1,3) s2(1,3,5) s3 c2
    by (intro exI [of _ s1] exI [of _ s2] exI [of _ s3])
       (simp add: rom0 off0 s1(2) upd zero_Storage_sel FLASH_STORAGE_U2FAREA_LEN_def)
qed

text \<open>
  C4, as the code has it. On a device with fresh counters the first 2047 calls return
  1 to 2047 and erase nothing; the 2048th call fills the area, recycles the sector,
  returns 2048 and leaves the stored counter 2048 and the offset 0; the 2049th call
  returns 2049 without a recycle, the stored counter still 2048.
\<close>

theorem u2f_recycle_at_2048th_call:
  assumes "fresh_counters s"
  shows "\<exists>s1 s2 s3.
           u2f_calls ext 2047 s = Some (map (\<lambda>i. of_nat (Suc i)) [0..<2047], s1) \<and>
           erases s1 = erases s \<and>
           storage_nextU2FCounter ext s1 = Some (2048, s2) \<and>
           erases s2 = Suc (erases s) \<and> u2f_counter (storageRom s2) = 2048 \<and>
           storage_u2f_offset s2 = 0 \<and>
           storage_nextU2FCounter ext s2 = Some (2049, s3) \<and>
           erases s3 = Suc (erases s) \<and> u2f_counter (storageRom s3) = 2048"
  using assms by (rule u2f_first_calls)

lemma fresh_device_fresh: "fresh_counters fresh_device"
  by (simp add: fresh_counters_def fresh_device_sel zero_Storage_sel)

lemma u2f_calls_Suc_end:
  "u2f_calls ext n s = Some (vs, s1) \<Longrightarrow> storage_nextU2FCounter ext s1 = Some (v, s2) \<Longrightarrow>
   u2f_calls ext (Suc n) s = Some (vs @ [v], s2)"
  using u2f_calls_append [of ext n 1 s] by simp

text \<open>
  C4 as stated fails: after 2048 calls on the fresh device the sector has been erased
  once and the last value is 2048; the 2049th call returns 2049 and erases nothing.
\<close>

theorem u2f_recycle_not_at_2049th_call:
  "map_option (last \<circ> fst) (u2f_calls toy_crypto 2048 fresh_device) = Some 2048 \<and>
   map_option (erases \<circ> snd) (u2f_calls toy_crypto 2048 fresh_device) = Some 1 \<and>
   map_option (u2f_counter \<circ> storageRom \<circ> snd) (u2f_calls toy_crypto 2048 fresh_device) =
     Some 2048 \<and>
   map_option (last \<circ> fst) (u2f_calls toy_crypto 2049 fresh_device) = Some 2049 \<and>
   map_option (erases \<circ> snd) (u2f_calls toy_crypto 2049 fresh_device) = Some 1"
proof -
  from u2f_first_calls [OF fresh_device_fresh, of toy_crypto]
  obtain s1 s2 s3 where h:
    "u2f_calls toy_crypto 2047 fresh_device = Some (map (\<lambda>i. of_nat (Suc i)) [0..<2047], s1)"
    "storage_nextU2FCounter toy_crypto s1 = Some (2048, s2)"
    "erases s2 = Suc (erases fresh_device)" "u2f_counter (storageRom s2) = 2048"
    "storage_nextU2FCounter toy_crypto s2 = Some (2049, s3)"
    "erases s3 = Suc (erases fresh_device)" by blast
  from u2f_calls_Suc_end [OF h(1,2)]
  have a: "u2f_calls toy_crypto 2048 fresh_device =
      Some (map (\<lambda>i. of_nat (Suc i)) [0..<2047] @ [2048], s2)" by simp
  from u2f_calls_Suc_end [OF a h(5)]
  have b: "u2f_calls toy_crypto 2049 fresh_device =
      Some ((map (\<lambda>i. of_nat (Suc i)) [0..<2047] @ [2048]) @ [2049], s3)" by simp
  show ?thesis
    unfolding a b using h(3,4,6) by (simp add: fresh_device_sel)
qed

theorem u2f_recycle_at_2048th_call_witness:
  "fresh_counters fresh_device \<and>
   map_option (last \<circ> fst) (u2f_calls toy_crypto 2047 fresh_device) = Some 2047 \<and>
   map_option (erases \<circ> snd) (u2f_calls toy_crypto 2047 fresh_device) = Some 0 \<and>
   map_option fst (Option.bind (map_option snd (u2f_calls toy_crypto 2047 fresh_device))
      (storage_nextU2FCounter toy_crypto)) = Some 2048"
  using u2f_recycle_at_2048th_call [OF fresh_device_fresh, of toy_crypto]
  by (auto simp: fresh_device_fresh fresh_device_sel last_map)

subsection \<open>C9: boot\<close>

lemma storage_wipe_result:
  assumes ok: "FLASH_SR s AND FLASH_SR_ERRORS = 0"
  shows "\<exists>w. storage_wipe ext rnd s = Some w \<and>
           \<not> sessionSeedCached w \<and> sessionSeed w = replicate 64 0 \<and>
           \<not> sessionPassphraseCached w \<and> sessionPassphrase w = replicate 51 0 \<and>
           \<not> sessionPinCached w \<and>
           storage_uuid w = take 12 rnd \<and> flash_uuid w = take 12 rnd \<and>
           flash_magic w = storage_magic \<and>
           storageRom w = zero_Storage \<and> storageUpdate w = zero_Storage \<and>
           (\<forall>a. FLASH_STORAGE_PINAREA \<le> a \<and> a < FLASH_META_END \<longrightarrow> flash w a = 0xffffffff) \<and>
           storage_u2f_offset w = 0 \<and> erases w = Suc (erases s)"
proof -
  let ?c = "storage_commit_locked ext False (storage_generate_uuid rnd (session_clear True s))"
  let ?w = "(svc_flash_erase_sector_last ?c)\<lparr>storage_u2f_offset := 0\<rparr>"
  have sr: "FLASH_SR ?c = FLASH_SR s"
    by (simp add: storage_commit_locked_sel storage_generate_uuid_def session_clear_def)
  have eq: "storage_wipe ext rnd s = Some ?w"
    using ok sr
    by (simp add: storage_wipe_def storage_clearPinArea_def storage_check_flash_errors_def
          svc_flash_erase_sector_last_sel)
  have "\<not> sessionSeedCached ?w \<and> sessionSeed ?w = replicate 64 0 \<and>
        \<not> sessionPassphraseCached ?w \<and> sessionPassphrase ?w = replicate 51 0 \<and>
        \<not> sessionPinCached ?w"
    by (simp add: svc_flash_erase_sector_last_def storage_commit_locked_False_session
          storage_generate_uuid_def session_clear_def)
  moreover have "storage_uuid ?w = take 12 rnd \<and> flash_uuid ?w = take 12 rnd \<and>
        flash_magic ?w = storage_magic \<and> storageRom ?w = zero_Storage \<and>
        storageUpdate ?w = zero_Storage"
    by (simp add: svc_flash_erase_sector_last_def storage_commit_locked_sel
          storage_commit_locked_False_session storage_generate_uuid_def)
  moreover have "(\<forall>a. FLASH_STORAGE_PINAREA \<le> a \<and> a < FLASH_META_END \<longrightarrow> flash ?w a = 0xffffffff) \<and>
        storage_u2f_offset ?w = 0 \<and> erases ?w = Suc (erases s)"
    by (simp add: svc_flash_erase_sector_last_def storage_commit_locked_sel
          storage_generate_uuid_def session_clear_def)
  ultimately show ?thesis
    unfolding eq by (intro exI [of _ ?w]) blast
qed

lemma legacy_from_flash_not_False: "legacy_from_flash ext bld v s \<noteq> Some (False, s')"
  by (simp add: legacy_from_flash_def Let_def split: option.splits)

lemma storage_from_flash_False_iff:
  "(\<exists>s'. storage_from_flash ext bld s = Some (False, s')) \<longleftrightarrow>
     flash_magic s \<noteq> storage_magic \<or> STORAGE_VERSION < version (storageRom s) \<or>
     (\<not> SUPPORT_LEGACY_VERSION bld \<and> version (storageRom s) \<noteq> STORAGE_VERSION)"
  by (auto simp: storage_from_flash_def Let_def storage_clear_update_def
        legacy_from_flash_not_False)

lemma storage_from_flash_False_state:
  "storage_from_flash ext bld s = Some (False, s') \<Longrightarrow>
   FLASH_SR s' = FLASH_SR s \<and> erases s' = erases s"
  by (auto simp: storage_from_flash_def Let_def storage_clear_update_def
        legacy_from_flash_not_False split: if_splits)

lemma storage_init_wipes:
  "storage_from_flash ext bld s = Some (False, s') \<Longrightarrow>
   storage_init ext bld rnd s = storage_wipe ext rnd s'"
  by (simp add: storage_init_def)

text \<open>
  C9, as the code has it. \<^verbatim>\<open>storage_from_flash\<close> returns false exactly when the magic
  word differs from \<open>storage_magic\<close>, or the stored version exceeds \<open>STORAGE_VERSION\<close>,
  or, in a build without \<^verbatim>\<open>SUPPORT_LEGACY_VERSION\<close>, the stored version differs from
  \<open>STORAGE_VERSION\<close> at all. In each case \<^verbatim>\<open>storage_init\<close> goes on with \<^verbatim>\<open>storage_wipe\<close>,
  which (on a flash that reports no error) clears the session, takes a fresh uuid,
  commits the empty record and erases the PIN/U2F sector.
\<close>

theorem from_flash_false_then_wipe:
  "((\<exists>s'. storage_from_flash ext bld s = Some (False, s')) \<longleftrightarrow>
      flash_magic s \<noteq> storage_magic \<or> STORAGE_VERSION < version (storageRom s) \<or>
      (\<not> SUPPORT_LEGACY_VERSION bld \<and> version (storageRom s) \<noteq> STORAGE_VERSION)) \<and>
   (storage_from_flash ext bld s = Some (False, s') \<longrightarrow>
      storage_init ext bld rnd s = storage_wipe ext rnd s' \<and>
      (FLASH_SR s AND FLASH_SR_ERRORS = 0 \<longrightarrow>
         (\<exists>w. storage_wipe ext rnd s' = Some w \<and>
            \<not> sessionSeedCached w \<and> sessionSeed w = replicate 64 0 \<and>
            \<not> sessionPassphraseCached w \<and> sessionPassphrase w = replicate 51 0 \<and>
            \<not> sessionPinCached w \<and>
            storage_uuid w = take 12 rnd \<and> flash_uuid w = take 12 rnd \<and>
            flash_magic w = storage_magic \<and>
            storageRom w = zero_Storage \<and> storageUpdate w = zero_Storage \<and>
            (\<forall>a. FLASH_STORAGE_PINAREA \<le> a \<and> a < FLASH_META_END \<longrightarrow> flash w a = 0xffffffff) \<and>
            storage_u2f_offset w = 0 \<and> erases w = Suc (erases s))))"
proof (intro conjI impI)
  show "(\<exists>s'. storage_from_flash ext bld s = Some (False, s')) \<longleftrightarrow>
      flash_magic s \<noteq> storage_magic \<or> STORAGE_VERSION < version (storageRom s) \<or>
      (\<not> SUPPORT_LEGACY_VERSION bld \<and> version (storageRom s) \<noteq> STORAGE_VERSION)"
    by (rule storage_from_flash_False_iff)
next
  assume "storage_from_flash ext bld s = Some (False, s')"
  then show "storage_init ext bld rnd s = storage_wipe ext rnd s'"
    by (rule storage_init_wipes)
next
  assume f: "storage_from_flash ext bld s = Some (False, s')"
    and ok: "FLASH_SR s AND FLASH_SR_ERRORS = 0"
  from storage_from_flash_False_state [OF f] ok
  have ok': "FLASH_SR s' AND FLASH_SR_ERRORS = 0" and e: "erases s' = erases s" by simp_all
  from storage_wipe_result [OF ok', of ext rnd] e
  show "\<exists>w. storage_wipe ext rnd s' = Some w \<and>
            \<not> sessionSeedCached w \<and> sessionSeed w = replicate 64 0 \<and>
            \<not> sessionPassphraseCached w \<and> sessionPassphrase w = replicate 51 0 \<and>
            \<not> sessionPinCached w \<and>
            storage_uuid w = take 12 rnd \<and> flash_uuid w = take 12 rnd \<and>
            flash_magic w = storage_magic \<and>
            storageRom w = zero_Storage \<and> storageUpdate w = zero_Storage \<and>
            (\<forall>a. FLASH_STORAGE_PINAREA \<le> a \<and> a < FLASH_META_END \<longrightarrow> flash w a = 0xffffffff) \<and>
            storage_u2f_offset w = 0 \<and> erases w = Suc (erases s)"
    by simp
qed

lemma release_build_from_flash_fresh:
  "storage_from_flash toy_crypto release_build fresh_device =
     Some (False, (storage_clear_update fresh_device)\<lparr>storage_uuid := replicate 12 7\<rparr>)"
  by (simp add: storage_from_flash_def Let_def storage_clear_update_def fresh_device_sel
        zero_Storage_sel release_build_def storage_magic_def STORAGE_VERSION_def)

text \<open>
  C9 as stated fails in the build without \<^verbatim>\<open>SUPPORT_LEGACY_VERSION\<close>: on the device a
  wipe leaves (valid magic, version 0 in flash) \<^verbatim>\<open>storage_from_flash\<close> returns false,
  though the magic is right and the version does not exceed \<open>STORAGE_VERSION\<close>.
\<close>

theorem from_flash_rejects_older_version:
  "flash_magic fresh_device = storage_magic \<and>
   version (storageRom fresh_device) = 0 \<and>
   \<not> STORAGE_VERSION < version (storageRom fresh_device) \<and>
   map_option fst (storage_from_flash toy_crypto release_build fresh_device) = Some False"
  by (simp add: release_build_from_flash_fresh fresh_device_sel zero_Storage_sel
        STORAGE_VERSION_def)

theorem from_flash_false_then_wipe_witness:
  "storage_from_flash toy_crypto release_build fresh_device =
     Some (False, (storage_clear_update fresh_device)\<lparr>storage_uuid := replicate 12 7\<rparr>) \<and>
   FLASH_SR fresh_device AND FLASH_SR_ERRORS = 0 \<and>
   \<not> SUPPORT_LEGACY_VERSION release_build \<and>
   version (storageRom fresh_device) \<noteq> STORAGE_VERSION \<and>
   map_option storage_uuid (storage_init toy_crypto release_build (replicate 12 9) fresh_device) =
     Some (replicate 12 9) \<and>
   map_option storageRom (storage_init toy_crypto release_build (replicate 12 9) fresh_device) =
     Some zero_Storage \<and>
   map_option erases (storage_init toy_crypto release_build (replicate 12 9) fresh_device) = Some 1"
  using from_flash_false_then_wipe [of toy_crypto release_build fresh_device
      "(storage_clear_update fresh_device)\<lparr>storage_uuid := replicate 12 7\<rparr>" "replicate 12 9"]
    release_build_from_flash_fresh
  by (auto simp: fresh_device_sel zero_Storage_sel release_build_def STORAGE_VERSION_def)

end
